theory Spec2Isabelle
  imports Complex_Main
begin

section \<open>Python and NumPy values used by \<open>rocket_classes.py\<close>\<close>

text \<open>
  The numbers in a thrust curve are Python ints or floats. Python ints are unbounded;
  finite floats are idealised as real numbers. What is outside the model: the rounding of
  float operations, their overflow and underflow (including the \<open>OverflowError\<close> of
  converting an int beyond the float range), and non-finite floats given as input.
  NumPy's default integer is taken to be \<open>int64\<close> (every 64-bit platform of NumPy 2, and
  Linux and macOS before).

  Numbers that never reach NumPy and only enter Python float arithmetic or are stored
  (\<open>dry_mass\<close>, \<open>fuel_mass\<close>, the stored \<open>total_impulse\<close> and \<open>burn_time\<close>) are represented
  by their value.
\<close>

datatype py_error = KeyError | ValueError | ZeroDivisionError

datatype pynum = PyInt int | PyFloat real

fun val :: "pynum \<Rightarrow> real" where
  "val (PyInt n) = of_int n"
| "val (PyFloat r) = r"

text \<open>
  A float that a division may have made non-finite: \<open>NonFinite\<close> stands for \<open>nan\<close>, \<open>inf\<close>
  and \<open>-inf\<close>.
\<close>

datatype npfloat = Fin real | NonFinite

text \<open>\<open>a * y\<close> for a finite, nonzero \<open>y\<close>: \<open>nan\<close> and \<open>inf\<close> stay non-finite.\<close>

fun float_mul :: "npfloat \<Rightarrow> real \<Rightarrow> npfloat" where
  "float_mul (Fin a) y = Fin (a * y)"
| "float_mul NonFinite y = NonFinite"

text \<open>\<open>a - b\<close>: a non-finite operand gives a non-finite result.\<close>

fun float_sub :: "npfloat \<Rightarrow> npfloat \<Rightarrow> npfloat" where
  "float_sub (Fin a) (Fin b) = Fin (a - b)"
| "float_sub _ _ = NonFinite"

subsection \<open>Dicts\<close>

text \<open>
  A dict is an association list in insertion order; a well-formed dict has keys of
  distinct values. Keys are numbers and are compared by value: the int \<open>0\<close> and the float
  \<open>0.0\<close> are the same key.
\<close>

type_synonym 'v pydict = "(pynum \<times> 'v) list"

definition dict_keys :: "'v pydict \<Rightarrow> pynum list" where
  "dict_keys d = map fst d"

definition dict_values :: "'v pydict \<Rightarrow> 'v list" where
  "dict_values d = map snd d"

text \<open>\<open>d[k]\<close> for a key of value \<open>k\<close>: raises \<open>KeyError\<close> when the key is absent.\<close>

fun dict_get :: "'v pydict \<Rightarrow> real \<Rightarrow> py_error + 'v" where
  "dict_get [] k = Inl KeyError"
| "dict_get ((k', v) # d) k = (if val k' = k then Inr v else dict_get d k)"

text \<open>\<open>d[k] = v\<close>: replaces the value of a present key in place (the key object stays),
  appends an absent one.\<close>

fun dict_set :: "'v pydict \<Rightarrow> pynum \<Rightarrow> 'v \<Rightarrow> 'v pydict" where
  "dict_set [] k v = [(k, v)]"
| "dict_set ((k', v') # d) k v =
     (if val k' = val k then (k', v) # d else (k', v') # dict_set d k v)"

text \<open>Truthiness of an optional dict (\<open>None\<close> and \<open>{}\<close> are falsy) and of an optional number
  (\<open>None\<close> and \<open>0\<close> are falsy).\<close>

definition truthy_dict :: "'v pydict option \<Rightarrow> bool" where
  "truthy_dict d = (case d of None \<Rightarrow> False | Some kvs \<Rightarrow> kvs \<noteq> [])"

definition truthy_num :: "real option \<Rightarrow> bool" where
  "truthy_num x = (case x of None \<Rightarrow> False | Some v \<Rightarrow> v \<noteq> 0)"

text \<open>\<open>max(xs)\<close>: raises \<open>ValueError\<close> on an empty sequence; otherwise the first of the
  largest items.\<close>

fun py_max :: "pynum list \<Rightarrow> py_error + pynum" where
  "py_max [] = Inl ValueError"
| "py_max (x # xs) = Inr (fold (\<lambda>item best. if val best < val item then item else best) xs x)"

subsection \<open>NumPy arrays and \<open>np.trapz\<close>\<close>

text \<open>
  \<open>np.asanyarray\<close> on a list of Python numbers finds one dtype per item and promotes:
  an int is \<open>int64\<close> when it fits, else \<open>uint64\<close> when it fits, else \<open>object\<close>; a float is
  \<open>float64\<close>. \<open>int64\<close> with \<open>uint64\<close> promotes to \<open>float64\<close>, anything with \<open>object\<close> to
  \<open>object\<close>. An empty list gives an empty \<open>float64\<close> array.
\<close>

datatype dtype = Int64 | UInt64 | Float64 | Object

definition scalar_dtype :: "pynum \<Rightarrow> dtype" where
  "scalar_dtype a =
     (case a of
        PyFloat r \<Rightarrow> Float64
      | PyInt n \<Rightarrow>
          if - (2 ^ 63) \<le> n \<and> n < 2 ^ 63 then Int64
          else if 2 ^ 63 \<le> n \<and> n < 2 ^ 64 then UInt64
          else Object)"

fun promote_types :: "dtype \<Rightarrow> dtype \<Rightarrow> dtype" where
  "promote_types Object _ = Object"
| "promote_types _ Object = Object"
| "promote_types Float64 _ = Float64"
| "promote_types _ Float64 = Float64"
| "promote_types Int64 Int64 = Int64"
| "promote_types UInt64 UInt64 = UInt64"
| "promote_types _ _ = Float64"

definition result_dtype :: "pynum list \<Rightarrow> dtype" where
  "result_dtype xs =
     (case xs of
        [] \<Rightarrow> Float64
      | x # r \<Rightarrow> fold (\<lambda>a t. promote_types t (scalar_dtype a)) r (scalar_dtype x))"

text \<open>An array is its dtype and its items. Items of an \<open>int64\<close> or \<open>uint64\<close> array are
  ints in range, items of a \<open>float64\<close> array are floats, items of an \<open>object\<close> array are
  Python numbers.\<close>

type_synonym ndarray = "dtype \<times> pynum list"

text \<open>Casting an item to a dtype it promotes to: to \<open>float64\<close> an int becomes a float;
  to \<open>object\<close> it becomes the Python number of the same value.\<close>

fun astype :: "dtype \<Rightarrow> pynum \<Rightarrow> pynum" where
  "astype Float64 a = PyFloat (val a)"
| "astype _ a = a"

definition asanyarray :: "pynum list \<Rightarrow> ndarray" where
  "asanyarray xs = (result_dtype xs, map (astype (result_dtype xs)) xs)"

text \<open>64-bit wrap-around of integer results.\<close>

definition wrap_int64 :: "int \<Rightarrow> int" where
  "wrap_int64 n = (n + 2 ^ 63) mod 2 ^ 64 - 2 ^ 63"

definition wrap_uint64 :: "int \<Rightarrow> int" where
  "wrap_uint64 n = n mod 2 ^ 64"

datatype binop = Add | Subtract | Multiply

fun int_op :: "binop \<Rightarrow> int \<Rightarrow> int \<Rightarrow> int" where
  "int_op Add a b = a + b"
| "int_op Subtract a b = a - b"
| "int_op Multiply a b = a * b"

fun real_op :: "binop \<Rightarrow> real \<Rightarrow> real \<Rightarrow> real" where
  "real_op Add a b = a + b"
| "real_op Subtract a b = a - b"
| "real_op Multiply a b = a * b"

text \<open>Python's own arithmetic: exact on two ints, float otherwise.\<close>

fun py_binop :: "binop \<Rightarrow> pynum \<Rightarrow> pynum \<Rightarrow> pynum" where
  "py_binop f (PyInt a) (PyInt b) = PyInt (int_op f a b)"
| "py_binop f a b = PyFloat (real_op f (val a) (val b))"

text \<open>Storing a result in an array of the given dtype: integer dtypes wrap.\<close>

fun fit :: "dtype \<Rightarrow> pynum \<Rightarrow> pynum" where
  "fit Int64 (PyInt n) = PyInt (wrap_int64 n)"
| "fit UInt64 (PyInt n) = PyInt (wrap_uint64 n)"
| "fit Float64 a = PyFloat (val a)"
| "fit _ a = a"

text \<open>An elementwise \<open>+\<close>, \<open>-\<close> or \<open>*\<close> of two arrays of the same length: both are cast to
  the promoted dtype and the operation is done in it.\<close>

definition np_binop :: "binop \<Rightarrow> ndarray \<Rightarrow> ndarray \<Rightarrow> ndarray" where
  "np_binop f a b =
     (let t = promote_types (fst a) (fst b)
      in (t, map2 (\<lambda>u v. fit t (py_binop f (astype t u) (astype t v))) (snd a) (snd b)))"

text \<open>The slices \<open>a[1:]\<close> and \<open>a[:-1]\<close>.\<close>

definition slice_from_1 :: "ndarray \<Rightarrow> ndarray" where
  "slice_from_1 a = (fst a, tl (snd a))"

definition slice_to_last :: "ndarray \<Rightarrow> ndarray" where
  "slice_to_last a = (fst a, butlast (snd a))"

text \<open>\<open>np.diff(x)\<close> is \<open>x[1:] - x[:-1]\<close>.\<close>

definition np_diff :: "ndarray \<Rightarrow> ndarray" where
  "np_diff x = np_binop Subtract (slice_from_1 x) (slice_to_last x)"

text \<open>\<open>a / 2.0\<close>: a \<open>float64\<close> array, or an \<open>object\<close> array of Python floats.\<close>

definition divide_by_2 :: "ndarray \<Rightarrow> ndarray" where
  "divide_by_2 a =
     (if fst a = Object then Object else Float64, map (\<lambda>u. PyFloat (val u / 2)) (snd a))"

text \<open>The result of \<open>a.sum()\<close>: a NumPy \<open>float64\<close> scalar, or for an \<open>object\<close> array a plain
  Python number.\<close>

datatype scalar = NpFloat64 real | PyNumber real

fun scalar_val :: "scalar \<Rightarrow> real" where
  "scalar_val (NpFloat64 r) = r"
| "scalar_val (PyNumber r) = r"

definition np_sum :: "ndarray \<Rightarrow> scalar" where
  "np_sum a =
     (if fst a = Object then PyNumber (sum_list (map val (snd a)))
      else NpFloat64 (sum_list (map val (snd a))))"

text \<open>
  \<open>np.trapz(y, x)\<close> as NumPy computes it for two lists of the same length:
  \<^verbatim>\<open>y = asanyarray(y); x = asanyarray(x); d = diff(x)
  ret = (d * (y[1:] + y[:-1]) / 2.0).sum()\<close>
\<close>

definition np_trapz :: "pynum list \<Rightarrow> pynum list \<Rightarrow> scalar" where
  "np_trapz ys xs =
     (let y = asanyarray ys; x = asanyarray xs; d = np_diff x
      in np_sum (divide_by_2
           (np_binop Multiply d (np_binop Add (slice_from_1 y) (slice_to_last y)))))"

text \<open>
  \<open>x / total_impulse\<close> for a Python float \<open>x\<close>. A zero NumPy scalar gives \<open>nan\<close> or \<open>inf\<close>
  and a warning; a zero Python number raises \<open>ZeroDivisionError\<close>.
\<close>

fun py_truediv :: "real \<Rightarrow> scalar \<Rightarrow> py_error + npfloat" where
  "py_truediv x (NpFloat64 ti) = Inr (if ti = 0 then NonFinite else Fin (x / ti))"
| "py_truediv x (PyNumber ti) = (if ti = 0 then Inl ZeroDivisionError else Inr (Fin (x / ti)))"

section \<open>Motor\<close>

record Motor =
  dry_mass :: real
  thrust_curve :: "pynum pydict"
  total_impulse :: real
  burn_time :: real
  fuel_mass_curve :: "npfloat pydict"
  fuel_mass :: npfloat

text \<open>
  One iteration of the loop of \<open>Motor.__init__\<close>, for the index \<open>t\<close>:
  \<^verbatim>\<open>fmc[times[t]] = fmc[times[t-1]] - (tc[times[t]] + tc[times[t-1]])/2
       * (times[t] - times[t-1]) / total_impulse * fuel_mass\<close>
  The right-hand side is evaluated left to right: the lookup \<open>fmc[times[t-1]]\<close> comes
  first, the division after the three lookups. Up to the division the arithmetic is
  Python's own (exact on ints, \<open>/2\<close> gives a float).
\<close>

definition fuel_step ::
  "pynum pydict \<Rightarrow> pynum list \<Rightarrow> scalar \<Rightarrow> real \<Rightarrow> npfloat pydict \<Rightarrow> nat
     \<Rightarrow> py_error + npfloat pydict"
where
  "fuel_step tc tms ti fm fmc t =
     (case dict_get fmc (val (tms ! (t - 1))) of
        Inl e \<Rightarrow> Inl e
      | Inr prev \<Rightarrow>
          (case dict_get tc (val (tms ! t)) of
             Inl e \<Rightarrow> Inl e
           | Inr y1 \<Rightarrow>
               (case dict_get tc (val (tms ! (t - 1))) of
                  Inl e \<Rightarrow> Inl e
                | Inr y0 \<Rightarrow>
                    (case py_truediv
                            ((val y1 + val y0) / 2 * (val (tms ! t) - val (tms ! (t - 1)))) ti of
                       Inl e \<Rightarrow> Inl e
                     | Inr q \<Rightarrow>
                         Inr (dict_set fmc (tms ! t) (float_sub prev (float_mul q fm)))))))"

text \<open>\<open>for t in range(1, len(times))\<close>: the loop over a list of indices.\<close>

fun fuel_loop ::
  "pynum pydict \<Rightarrow> pynum list \<Rightarrow> scalar \<Rightarrow> real \<Rightarrow> nat list \<Rightarrow> npfloat pydict
     \<Rightarrow> py_error + npfloat pydict"
where
  "fuel_loop tc tms ti fm [] fmc = Inr fmc"
| "fuel_loop tc tms ti fm (t # ts) fmc =
     (case fuel_step tc tms ti fm fmc t of
        Inl e \<Rightarrow> Inl e
      | Inr fmc' \<Rightarrow> fuel_loop tc tms ti fm ts fmc')"

text \<open>
  \<open>Motor.__init__(dry_mass, thrust_curve, fuel_mass_curve=None, fuel_mass=None)\<close>.
  \<open>np.trapz\<close> and \<open>max\<close> run before the branches; \<open>max\<close> raises on an empty thrust curve.
\<close>

definition Motor_init ::
  "real \<Rightarrow> pynum pydict \<Rightarrow> npfloat pydict option \<Rightarrow> real option \<Rightarrow> py_error + Motor"
where
  "Motor_init dm tc fmc_arg fm_arg =
     (let ti = np_trapz (dict_values tc) (dict_keys tc) in
      case py_max (dict_keys tc) of
        Inl e \<Rightarrow> Inl e
      | Inr bt \<Rightarrow>
          if truthy_dict fmc_arg then
            (case dict_get (the fmc_arg) 0 of
               Inl e \<Rightarrow> Inl e
             | Inr v \<Rightarrow>
                 Inr \<lparr>dry_mass = dm, thrust_curve = tc, total_impulse = scalar_val ti,
                      burn_time = val bt, fuel_mass_curve = the fmc_arg, fuel_mass = v\<rparr>)
          else if truthy_num fm_arg then
            (case fuel_loop tc (dict_keys tc) ti (the fm_arg) [1..<length (dict_keys tc)]
                    [(PyInt 0, Fin (the fm_arg))] of
               Inl e \<Rightarrow> Inl e
             | Inr fmc \<Rightarrow>
                 Inr \<lparr>dry_mass = dm, thrust_curve = tc, total_impulse = scalar_val ti,
                      burn_time = val bt, fuel_mass_curve = fmc,
                      fuel_mass = Fin (the fm_arg)\<rparr>)
          else
            Inr \<lparr>dry_mass = dm, thrust_curve = tc, total_impulse = scalar_val ti,
                 burn_time = val bt,
                 fuel_mass_curve = dict_set [(PyInt 0, Fin 0)] bt (Fin 0), fuel_mass = Fin 0\<rparr>)"

section \<open>Rocket\<close>

text \<open>\<open>Cd_rocket_at_Ma\<close> is a number or a callable of the Mach number; the test
  \<open>callable(Cd_rocket_at_Ma)\<close> is the case distinction on this type.\<close>

datatype drag_coefficient = Constant real | FunctionOfMach "real \<Rightarrow> real"

record Rocket =
  rocket_mass :: real
  motor :: Motor
  A_rocket :: real
  Cd_rocket_at_Ma :: drag_coefficient
  h_second_rail_button :: real
  dry_mass :: real
  Cd_A_rocket :: "real \<Rightarrow> real"

text \<open>
  \<open>Rocket.__init__(rocket_mass, motor, A_rocket, Cd_rocket_at_Ma=0.45,
  h_second_rail_button=0.69)\<close>; an omitted optional argument is \<open>None\<close>.
\<close>

definition Rocket_init ::
  "real \<Rightarrow> Motor \<Rightarrow> real \<Rightarrow> drag_coefficient option \<Rightarrow> real option \<Rightarrow> Rocket"
where
  "Rocket_init rm mot A cd_arg h_arg =
     (let cd = (case cd_arg of None \<Rightarrow> Constant (45 / 100) | Some c \<Rightarrow> c);
          h = (case h_arg of None \<Rightarrow> 69 / 100 | Some x \<Rightarrow> x)
      in \<lparr>rocket_mass = rm, motor = mot, A_rocket = A, Cd_rocket_at_Ma = cd,
           h_second_rail_button = h,
           dry_mass = rm + Motor.dry_mass mot,
           Cd_A_rocket =
             (case cd of
                FunctionOfMach f \<Rightarrow> (\<lambda>Ma. f Ma * A)
              | Constant c \<Rightarrow> (\<lambda>Ma. c * A))\<rparr>)"

section \<open>LaunchConditions\<close>

text \<open>
  The module \<open>constants\<close> and the function \<open>helper_functions.get_local_gravity\<close> are
  imported from elsewhere in the package; the constructor is parameterised over them.
\<close>

record constants =
  T_lapse_rate :: real
  F_gravity :: real

record LaunchConditions =
  launchpad_pressure :: real
  launchpad_temp :: real
  L_launch_rail :: real
  launch_rail_elevation :: real
  launch_rail_direction :: real
  local_T_lapse_rate :: real
  local_gravity :: real
  mean_wind_speed :: real
  wind_heading :: real

text \<open>The optional arguments of \<open>LaunchConditions.__init__\<close>; \<open>None\<close> is an omitted
  argument (and, for \<open>local_gravity\<close> and \<open>latitude\<close>, also the default value itself).\<close>

record LaunchConditions_kwargs =
  kw_launch_rail_elevation :: "real option"
  kw_launch_rail_direction :: "real option"
  kw_local_gravity :: "real option"
  kw_local_T_lapse_rate :: "real option"
  kw_latitude :: "real option"
  kw_altitude :: "real option"
  kw_mean_wind_speed :: "real option"
  kw_wind_heading :: "real option"

definition default :: "'a \<Rightarrow> 'a option \<Rightarrow> 'a" where
  "default d x = (case x of None \<Rightarrow> d | Some v \<Rightarrow> v)"

definition LaunchConditions_init ::
  "constants \<Rightarrow> (real \<Rightarrow> real \<Rightarrow> real) \<Rightarrow> real \<Rightarrow> real \<Rightarrow> real \<Rightarrow> LaunchConditions_kwargs
     \<Rightarrow> LaunchConditions"
where
  "LaunchConditions_init con get_local_gravity pressure temp rail kw =
     (let altitude = default 0 (kw_altitude kw) in
      \<lparr>launchpad_pressure = pressure,
       launchpad_temp = temp + 27315 / 100,
       L_launch_rail = rail,
       launch_rail_elevation = default 90 (kw_launch_rail_elevation kw),
       launch_rail_direction = default 0 (kw_launch_rail_direction kw),
       local_T_lapse_rate = default (T_lapse_rate con) (kw_local_T_lapse_rate kw),
       local_gravity =
         (if truthy_num (kw_local_gravity kw) then the (kw_local_gravity kw)
          else if truthy_num (kw_latitude kw) then
            get_local_gravity (the (kw_latitude kw)) altitude
          else F_gravity con),
       mean_wind_speed = default 0 (kw_mean_wind_speed kw),
       wind_heading = default 0 (kw_wind_heading kw)\<rparr>)"

text \<open>A call that omits every optional argument.\<close>

definition no_kwargs :: LaunchConditions_kwargs where
  "no_kwargs =
     \<lparr>kw_launch_rail_elevation = None, kw_launch_rail_direction = None,
      kw_local_gravity = None, kw_local_T_lapse_rate = None, kw_latitude = None,
      kw_altitude = None, kw_mean_wind_speed = None, kw_wind_heading = None\<rparr>"

section \<open>Airbrakes\<close>

record Airbrakes =
  num_flaps :: int
  A_flap :: real
  Cd_brakes :: real
  max_deployment_rate :: real
  max_deployment_angle :: real
  max_retraction_rate :: real

text \<open>\<open>Airbrakes.__init__(..., max_deployment_rate, max_retraction_rate=None)\<close>.\<close>

definition Airbrakes_init ::
  "int \<Rightarrow> real \<Rightarrow> real \<Rightarrow> real \<Rightarrow> real \<Rightarrow> real option \<Rightarrow> Airbrakes"
where
  "Airbrakes_init n A cd angle rate retraction =
     \<lparr>num_flaps = n, A_flap = A, Cd_brakes = cd,
      max_deployment_rate = rate, max_deployment_angle = angle,
      max_retraction_rate = (if truthy_num retraction then the retraction else rate)\<rparr>"

section \<open>Notions used to state and prove the properties\<close>

text \<open>
  \<open>quotient ti x\<close> is \<open>x / ti\<close> when the division does not raise: non-finite for \<open>ti = 0\<close>.
\<close>

definition quotient :: "real \<Rightarrow> real \<Rightarrow> npfloat" where
  "quotient ti x = (if ti = 0 then NonFinite else Fin (x / ti))"

text \<open>
  The value the loop of \<open>Motor.__init__\<close> stores at the \<open>i\<close>-th time key when no division
  raises, written as a recursion on \<open>i\<close>; \<open>fuel_loop_closed\<close> below proves that the loop
  produces exactly these values.
\<close>

fun depletion :: "pynum pydict \<Rightarrow> real \<Rightarrow> real \<Rightarrow> nat \<Rightarrow> npfloat" where
  "depletion tc ti fm 0 = Fin fm"
| "depletion tc ti fm (Suc i) =
     float_sub (depletion tc ti fm i)
       (float_mul (quotient ti ((val (dict_values tc ! Suc i) + val (dict_values tc ! i)) / 2
                          * (val (dict_keys tc ! Suc i) - val (dict_keys tc ! i)))) fm)"

text \<open>The keys of the derived curve: the literal \<open>0\<close>, then the thrust curve's keys from
  the second on.\<close>

definition curve_keys :: "pynum pydict \<Rightarrow> pynum list" where
  "curve_keys tc = PyInt 0 # tl (dict_keys tc)"

text \<open>A number on which NumPy's integer arithmetic in \<open>np.trapz\<close> cannot wrap: a float,
  or an int of absolute value below \<open>2^30\<close>.\<close>

definition plain :: "pynum \<Rightarrow> bool" where
  "plain a = (case a of PyInt n \<Rightarrow> \<bar>n\<bar> < 2 ^ 30 | PyFloat r \<Rightarrow> True)"

text \<open>An \<open>int64\<close> array of ints of absolute value below \<open>B\<close>, or a \<open>float64\<close> array.\<close>

definition conforms :: "int \<Rightarrow> ndarray \<Rightarrow> bool" where
  "conforms B a =
     ((fst a = Int64 \<and> (\<forall>e\<in>set (snd a). \<exists>n. e = PyInt n \<and> \<bar>n\<bar> < B))
      \<or> (fst a = Float64 \<and> (\<forall>e\<in>set (snd a). \<exists>r. e = PyFloat r)))"

text \<open>The trapezoid rule on real numbers.\<close>

definition real_trapz :: "real list \<Rightarrow> real list \<Rightarrow> real" where
  "real_trapz y x =
     sum_list (map2 (\<lambda>d s. d * s / 2) (map2 (\<lambda>a b. a - b) (tl x) (butlast x))
                 (map2 (\<lambda>a b. a + b) (tl y) (butlast y)))"

text \<open>The definitions to unfold when a construction is evaluated on a concrete input.\<close>

lemmas Motor_eval = Motor_init_def Let_def truthy_dict_def truthy_num_def fuel_step_def
  np_trapz_def np_diff_def np_binop_def np_sum_def divide_by_2_def asanyarray_def
  result_dtype_def scalar_dtype_def slice_from_1_def slice_to_last_def
  wrap_int64_def wrap_uint64_def dict_keys_def dict_values_def

section \<open>Dictionaries and the loop\<close>

lemma dict_get_absent: "k \<notin> set (map val (dict_keys d)) \<Longrightarrow> dict_get d k = Inl KeyError"
  by (induction d) (auto simp: dict_keys_def)

lemma dict_set_absent:
  "val k \<notin> set (map val (dict_keys d)) \<Longrightarrow> dict_set d k v = d @ [(k, v)]"
  by (induction d) (auto simp: dict_keys_def)

lemma dict_get_error: "dict_get d k = Inl e \<Longrightarrow> e = KeyError"
  by (induction d) (auto split: if_splits)

lemma dict_get_present:
  "k \<in> set (map val (dict_keys d)) \<Longrightarrow> \<exists>v. dict_get d k = Inr v"
  by (induction d) (force simp: dict_keys_def)+

lemma dict_keys_zip: "length ks = length vs \<Longrightarrow> dict_keys (zip ks vs) = ks"
  by (simp add: dict_keys_def)

lemma dict_get_zip:
  "distinct (map val ks) \<Longrightarrow> length ks = length vs \<Longrightarrow> i < length ks
     \<Longrightarrow> dict_get (zip ks vs) (val (ks ! i)) = Inr (vs ! i)"
proof (induction ks arbitrary: vs i)
  case Nil
  then show ?case by simp
next
  case (Cons k ks)
  then obtain v vs' where vs: "vs = v # vs'" by (cases vs) auto
  show ?case
  proof (cases i)
    case 0
    then show ?thesis by (simp add: vs)
  next
    case (Suc j)
    with Cons.prems vs have j: "j < length ks" by auto
    then have "val (ks ! j) \<in> val ` set ks" by simp
    with Cons.prems have "val (ks ! j) \<noteq> val k" by auto
    with Cons vs Suc j show ?thesis by auto
  qed
qed

lemma dict_get_nth:
  assumes "distinct (map val (dict_keys d))" "i < length d"
  shows "dict_get d (val (dict_keys d ! i)) = Inr (dict_values d ! i)"
proof -
  have "d = zip (dict_keys d) (dict_values d)"
    by (simp add: dict_keys_def dict_values_def zip_map_fst_snd)
  then show ?thesis
    using dict_get_zip [of "dict_keys d" "dict_values d" i] assms
    by (simp add: dict_keys_def dict_values_def)
qed

lemma fuel_loop_snoc:
  "fuel_loop tc tms ti fm (xs @ [t]) fmc =
     (case fuel_loop tc tms ti fm xs fmc of
        Inl e \<Rightarrow> Inl e
      | Inr f \<Rightarrow> fuel_step tc tms ti fm f t)"
  by (induction xs arbitrary: fmc) (auto split: sum.splits)

lemma py_truediv_quotient:
  "ti \<noteq> PyNumber 0 \<Longrightarrow> py_truediv x ti = Inr (quotient (scalar_val ti) x)"
  by (cases ti) (auto simp: quotient_def)

lemma curve_keys_val:
  assumes "tc \<noteq> []" "val (dict_keys tc ! 0) = 0"
  shows "map val (curve_keys tc) = map val (dict_keys tc)"
  using assms by (cases tc) (auto simp: curve_keys_def dict_keys_def)

lemma curve_keys_nth: "0 < i \<Longrightarrow> i < length tc \<Longrightarrow> curve_keys tc ! i = dict_keys tc ! i"
  by (cases i) (auto simp: curve_keys_def dict_keys_def nth_tl)

lemma fuel_loop_closed:
  assumes d: "distinct (map val (dict_keys tc))" and z: "val (dict_keys tc ! 0) = 0"
    and nz: "ti \<noteq> PyNumber 0 \<or> length tc < 2"
  shows "k < length tc \<Longrightarrow>
    fuel_loop tc (dict_keys tc) ti fm [1..<Suc k] [(PyInt 0, Fin fm)] =
      Inr (zip (take (Suc k) (curve_keys tc)) (map (depletion tc (scalar_val ti) fm) [0..<Suc k]))"
proof (induction k)
  case 0
  then show ?case by (simp add: curve_keys_def)
next
  case (Suc k)
  let ?ks = "dict_keys tc"
  let ?cs = "curve_keys tc"
  let ?dep = "depletion tc (scalar_val ti) fm"
  let ?f = "zip (take (Suc k) ?cs) (map ?dep [0..<Suc k])"
  from Suc have k: "k < length tc" and sk: "Suc k < length tc" by auto
  then have ne: "tc \<noteq> []" by auto
  from sk nz have nz': "ti \<noteq> PyNumber 0" by auto
  have len: "length ?ks = length tc" by (simp add: dict_keys_def)
  have lenc: "length ?cs = length tc" using ne by (cases tc) (simp_all add: curve_keys_def dict_keys_def)
  have vals: "map val ?cs = map val ?ks" using curve_keys_val [OF ne z] .
  have valn: "val (?cs ! i) = val (?ks ! i)" if "i < length tc" for i
    using that vals len lenc by (metis nth_map)
  have dc: "distinct (map val ?cs)" using d vals by simp
  have loop: "fuel_loop tc ?ks ti fm [1..<Suc k] [(PyInt 0, Fin fm)] = Inr ?f"
    using Suc.IH k by simp
  have dt: "distinct (map val (take (Suc k) ?cs))"
    using dc by (simp add: take_map [symmetric] distinct_take)
  have g1: "dict_get ?f (val (?ks ! k)) = Inr (?dep k)"
    using dict_get_zip [OF dt, of "map ?dep [0..<Suc k]" k] k lenc valn [OF k]
    by (simp del: upt_Suc)
  have g2: "dict_get tc (val (?ks ! Suc k)) = Inr (dict_values tc ! Suc k)"
    using dict_get_nth [OF d sk] .
  have g3: "dict_get tc (val (?ks ! k)) = Inr (dict_values tc ! k)"
    using dict_get_nth [OF d k] .
  have notin: "val (?ks ! Suc k) \<notin> set (map val (take (Suc k) ?cs))"
  proof
    assume "val (?ks ! Suc k) \<in> set (map val (take (Suc k) ?cs))"
    then obtain j where j: "j < Suc k" "val (?cs ! j) = val (?ks ! Suc k)"
      using sk lenc by (auto simp: in_set_conv_nth)
    then have "val (?ks ! j) = val (?ks ! Suc k)" using valn [of j] sk by simp
    with d sk len j show False by (auto simp: distinct_conv_nth)
  qed
  have keysf: "dict_keys ?f = take (Suc k) ?cs"
    using k lenc by (simp add: dict_keys_def del: upt_Suc)
  have set: "dict_set ?f (?ks ! Suc k) v = ?f @ [(?ks ! Suc k, v)]" for v
    using dict_set_absent [of "?ks ! Suc k" ?f v] notin keysf by simp
  have tks: "take (Suc (Suc k)) ?cs = take (Suc k) ?cs @ [?ks ! Suc k]"
    using sk lenc curve_keys_nth [of "Suc k" tc] by (simp add: take_Suc_conv_app_nth)
  have step: "fuel_step tc ?ks ti fm ?f (Suc k) =
      Inr (zip (take (Suc (Suc k)) ?cs) (map ?dep [0..<Suc (Suc k)]))"
    unfolding fuel_step_def using g1 g2 g3 set tks k lenc py_truediv_quotient [OF nz']
    by (simp del: upt_Suc add: upt_Suc_append [of 0 "Suc k"])
  have "[1..<Suc (Suc k)] = [1..<Suc k] @ [Suc k]" by simp
  then show ?case
    using loop step by (simp only: fuel_loop_snoc sum.case)
qed

lemma fuel_loop_zero_division:
  assumes "2 \<le> length tc" and "val (dict_keys tc ! 0) = 0"
  shows "fuel_loop tc (dict_keys tc) (PyNumber 0) fm [1..<length (dict_keys tc)]
           [(PyInt 0, Fin fm)] = Inl ZeroDivisionError"
proof -
  let ?ks = "dict_keys tc"
  have len: "length ?ks = length tc" by (simp add: dict_keys_def)
  have idx: "[1..<length ?ks] = 1 # [Suc 1..<length ?ks]"
    using assms(1) by (intro upt_conv_Cons) (simp add: dict_keys_def)
  have mem: "val (?ks ! i) \<in> set (map val ?ks)" if "i < length tc" for i
    using that len by (metis length_map nth_map nth_mem)
  from assms(1) have "1 < length tc" "0 < length tc" by auto
  then obtain y1 y0 where
    "dict_get tc (val (?ks ! 1)) = Inr y1" "dict_get tc (val (?ks ! 0)) = Inr y0"
    using dict_get_present [OF mem [of 1]] dict_get_present [OF mem [of 0]] by blast
  then have "fuel_step tc ?ks (PyNumber 0) fm [(PyInt 0, Fin fm)] 1 = Inl ZeroDivisionError"
    using assms(2) by (simp add: fuel_step_def)
  then show ?thesis unfolding idx by (simp only: fuel_loop.simps sum.case)
qed

lemma py_max_Max:
  assumes "xs \<noteq> []"
  shows "\<exists>b. py_max xs = Inr b \<and> val b = Max (set (map val xs))"
proof -
  have f: "val (fold (\<lambda>item best. if val best < val item then item else best) ys y)
      = fold max (map val ys) (val y)" for ys y
    by (induction ys arbitrary: y) (auto simp: max_def)
  obtain x r where xs: "xs = x # r" using assms by (cases xs) auto
  have "fold max (map val r) (val x) = Max (set (val x # map val r))"
    by (rule Max.set_eq_fold [symmetric])
  with f [of r x] xs show ?thesis by simp
qed

section \<open>\<open>np.trapz\<close> without wrap-around\<close>

lemma wrap_int64_id: "- (2 ^ 63) \<le> n \<Longrightarrow> n < 2 ^ 63 \<Longrightarrow> wrap_int64 n = n"
  by (simp add: wrap_int64_def)

lemma scalar_dtype_plain:
  "plain a \<Longrightarrow> scalar_dtype a = (case a of PyInt n \<Rightarrow> Int64 | PyFloat r \<Rightarrow> Float64)"
  by (cases a) (auto simp: plain_def scalar_dtype_def)

lemma fold_promote_plain:
  assumes "\<forall>a\<in>set r. plain a" "t = Int64 \<or> t = Float64"
  shows "(fold (\<lambda>a t. promote_types t (scalar_dtype a)) r t = Int64
            \<and> t = Int64 \<and> (\<forall>a\<in>set r. \<exists>n. a = PyInt n))
       \<or> fold (\<lambda>a t. promote_types t (scalar_dtype a)) r t = Float64"
  using assms
proof (induction r arbitrary: t)
  case Nil
  then show ?case by auto
next
  case (Cons a r)
  then have pa: "plain a" and pr: "\<forall>a\<in>set r. plain a" by auto
  show ?case
  proof (cases a)
    case (PyInt n)
    with pa have "scalar_dtype a = Int64" by (simp add: scalar_dtype_plain)
    with Cons.prems(2) have "promote_types t (scalar_dtype a) = t" by auto
    with Cons.IH [OF pr Cons.prems(2)] PyInt show ?thesis by auto
  next
    case (PyFloat x)
    with pa have "scalar_dtype a = Float64" by (simp add: scalar_dtype_plain)
    with Cons.prems(2) have "promote_types t (scalar_dtype a) = Float64" by auto
    with Cons.IH [OF pr, of Float64] show ?thesis by auto
  qed
qed

lemma result_dtype_plain:
  assumes "\<forall>a\<in>set xs. plain a"
  shows "(result_dtype xs = Int64 \<and> (\<forall>a\<in>set xs. \<exists>n. a = PyInt n))
       \<or> result_dtype xs = Float64"
proof (cases xs)
  case Nil
  then show ?thesis by (simp add: result_dtype_def)
next
  case (Cons x r)
  with assms have px: "plain x" and pr: "\<forall>a\<in>set r. plain a" by auto
  have t: "scalar_dtype x = Int64 \<or> scalar_dtype x = Float64"
    using px by (cases x) (simp_all add: scalar_dtype_plain)
  have "scalar_dtype x = Int64 \<Longrightarrow> \<exists>n. x = PyInt n"
    using px by (cases x) (simp_all add: scalar_dtype_plain)
  with fold_promote_plain [OF pr t] Cons show ?thesis
    by (auto simp: result_dtype_def)
qed

lemma asanyarray_plain:
  assumes "\<forall>a\<in>set xs. plain a"
  shows "conforms (2 ^ 30) (asanyarray xs)" and "map val (snd (asanyarray xs)) = map val xs"
proof -
  from result_dtype_plain [OF assms]
  show "conforms (2 ^ 30) (asanyarray xs)"
  proof
    assume a: "result_dtype xs = Int64 \<and> (\<forall>a\<in>set xs. \<exists>n. a = PyInt n)"
    then have "\<forall>e\<in>set xs. \<exists>n. e = PyInt n \<and> \<bar>n\<bar> < 2 ^ 30"
      using assms by (fastforce simp: plain_def)
    with a show ?thesis by (simp add: conforms_def asanyarray_def)
  next
    assume "result_dtype xs = Float64"
    then show ?thesis by (simp add: conforms_def asanyarray_def)
  qed
  have "val (astype t a) = val a" for t a by (cases t) simp_all
  then show "map val (snd (asanyarray xs)) = map val xs"
    by (simp add: asanyarray_def)
qed

lemma conforms_slices:
  assumes "conforms B a"
  shows "conforms B (slice_from_1 a)" and "conforms B (slice_to_last a)"
proof -
  have "set (tl (snd a)) \<subseteq> set (snd a)" by (cases "snd a") auto
  with assms show "conforms B (slice_from_1 a)"
    by (auto simp: conforms_def slice_from_1_def)
  have "set (butlast (snd a)) \<subseteq> set (snd a)" by (auto dest: in_set_butlastD)
  with assms show "conforms B (slice_to_last a)"
    by (auto simp: conforms_def slice_to_last_def)
qed

lemma np_binop_conforms:
  assumes a: "conforms Ba a" and b: "conforms Bb b"
    and bound: "\<And>m n. \<bar>m\<bar> < Ba \<Longrightarrow> \<bar>n\<bar> < Bb \<Longrightarrow> \<bar>int_op f m n\<bar> < B"
    and B: "B \<le> 2 ^ 63"
  shows "conforms B (np_binop f a b)"
    and "map val (snd (np_binop f a b)) =
           map2 (\<lambda>u v. real_op f (val u) (val v)) (snd a) (snd b)"
proof -
  let ?t = "promote_types (fst a) (fst b)"
  let ?g = "\<lambda>u v. fit ?t (py_binop f (astype ?t u) (astype ?t v))"
  have ri: "real_of_int (int_op f m n) = real_op f (real_of_int m) (real_of_int n)" for m n
    by (cases f) simp_all
  have elem: "val (?g u v) = real_op f (val u) (val v)
      \<and> (?t = Int64 \<longrightarrow> (\<exists>k. ?g u v = PyInt k \<and> \<bar>k\<bar> < B))
      \<and> (?t = Float64 \<longrightarrow> (\<exists>r. ?g u v = PyFloat r))
      \<and> (?t = Int64 \<or> ?t = Float64)"
    if u: "u \<in> set (snd a)" and v: "v \<in> set (snd b)" for u v
  proof (cases "fst a = Int64 \<and> fst b = Int64")
    case True
    with a b u v obtain m n where mn: "u = PyInt m" "\<bar>m\<bar> < Ba" "v = PyInt n" "\<bar>n\<bar> < Bb"
      by (fastforce simp: conforms_def)
    from bound [OF mn(2,4)] B have r: "\<bar>int_op f m n\<bar> < B" "- (2 ^ 63) \<le> int_op f m n"
      "int_op f m n < 2 ^ 63" by auto
    with True mn show ?thesis by (simp add: wrap_int64_id ri)
  next
    case False
    with a b have t: "?t = Float64" by (auto simp: conforms_def)
    then show ?thesis by simp
  qed
  have pairs: "\<And>u v. (u, v) \<in> set (zip (snd a) (snd b)) \<Longrightarrow> u \<in> set (snd a) \<and> v \<in> set (snd b)"
    by (auto dest: set_zip_leftD set_zip_rightD)
  show "map val (snd (np_binop f a b)) =
           map2 (\<lambda>u v. real_op f (val u) (val v)) (snd a) (snd b)"
    using elem pairs by (auto simp: np_binop_def Let_def)
  have "\<forall>e\<in>set (snd (np_binop f a b)). \<exists>u v. u \<in> set (snd a) \<and> v \<in> set (snd b) \<and> e = ?g u v"
    using pairs by (fastforce simp: np_binop_def Let_def)
  moreover have "fst (np_binop f a b) = ?t" by (simp add: np_binop_def Let_def)
  moreover have "?t = Int64 \<or> ?t = Float64"
    using a b by (auto simp: conforms_def)
  ultimately show "conforms B (np_binop f a b)"
    unfolding conforms_def using elem by metis
qed

lemma np_trapz_plain:
  assumes "\<forall>a\<in>set xs. plain a" and "\<forall>a\<in>set ys. plain a"
  shows "np_trapz ys xs = NpFloat64 (real_trapz (map val ys) (map val xs))"
proof -
  let ?x = "asanyarray xs" and ?y = "asanyarray ys"
  let ?d = "np_diff ?x"
  let ?s = "np_binop Add (slice_from_1 ?y) (slice_to_last ?y)"
  let ?p = "np_binop Multiply ?d ?s"
  note cx = asanyarray_plain [OF assms(1)] and cy = asanyarray_plain [OF assms(2)]
  have add: "\<bar>int_op Add m n\<bar> < 2 ^ 31" and sub: "\<bar>int_op Subtract m n\<bar> < 2 ^ 31"
    if "\<bar>m\<bar> < 2 ^ 30" "\<bar>n\<bar> < 2 ^ 30" for m n :: int
    using that by simp_all
  have mul: "\<bar>int_op Multiply m n\<bar> < 2 ^ 62" if "\<bar>m\<bar> < 2 ^ 31" "\<bar>n\<bar> < 2 ^ 31" for m n :: int
  proof -
    have "\<bar>m\<bar> * \<bar>n\<bar> < 2 ^ 31 * 2 ^ 31"
      using that by (intro mult_strict_mono') auto
    then show ?thesis by (simp add: abs_mult)
  qed
  have cd: "conforms (2 ^ 31) ?d"
    and vd: "map val (snd ?d) = map2 (\<lambda>u v. val u - val v) (tl (snd ?x)) (butlast (snd ?x))"
    using np_binop_conforms [OF conforms_slices [OF cx(1)], of Subtract "2 ^ 31", OF sub]
    by (simp_all add: np_diff_def slice_from_1_def slice_to_last_def)
  have cs: "conforms (2 ^ 31) ?s"
    and vs: "map val (snd ?s) = map2 (\<lambda>u v. val u + val v) (tl (snd ?y)) (butlast (snd ?y))"
    using np_binop_conforms [OF conforms_slices [OF cy(1)], of Add "2 ^ 31", OF add]
    by (simp_all add: slice_from_1_def slice_to_last_def)
  have cp: "conforms (2 ^ 62) ?p"
    and vp: "map val (snd ?p) = map2 (\<lambda>u v. val u * val v) (snd ?d) (snd ?s)"
    using np_binop_conforms [OF cd cs, of Multiply "2 ^ 62", OF mul]
    by simp_all
  have notobj: "fst ?p \<noteq> Object" using cp by (auto simp: conforms_def)
  have m2: "map2 (\<lambda>u v. f (val u) (val v)) as bs = map2 f (map val as) (map val bs)"
    for f :: "real \<Rightarrow> real \<Rightarrow> real" and as bs
    by (auto simp: zip_map_map)
  have "map val (snd (divide_by_2 ?p)) = map (\<lambda>r. r / 2) (map val (snd ?p))"
    by (simp add: divide_by_2_def comp_def)
  also have "\<dots> = map (\<lambda>r. r / 2) (map2 (\<lambda>d s. d * s) (map val (snd ?d)) (map val (snd ?s)))"
    by (simp only: vp m2)
  also have "\<dots> = map2 (\<lambda>d s. d * s / 2) (map val (snd ?d)) (map val (snd ?s))"
    by auto
  also have "map val (snd ?d) = map2 (\<lambda>a b. a - b) (tl (map val xs)) (butlast (map val xs))"
    by (simp only: vd m2 map_tl map_butlast cx(2))
  also have "map val (snd ?s) = map2 (\<lambda>a b. a + b) (tl (map val ys)) (butlast (map val ys))"
    by (simp only: vs m2 map_tl map_butlast cy(2))
  finally have "sum_list (map val (snd (divide_by_2 ?p))) = real_trapz (map val ys) (map val xs)"
    by (simp add: real_trapz_def)
  moreover have "fst (divide_by_2 ?p) = Float64"
    using notobj by (simp add: divide_by_2_def)
  ultimately show ?thesis
    by (simp add: np_trapz_def Let_def np_sum_def)
qed

section \<open>The constructor\<close>

lemma real_trapz_sum:
  assumes "length ys = length xs"
  shows "real_trapz ys xs =
    (\<Sum>i = 1..<length xs. (ys ! i + ys ! (i - 1)) / 2 * (xs ! i - xs ! (i - 1)))"
proof -
  let ?n = "length xs - 1"
  let ?l = "map2 (\<lambda>d s. d * s / 2) (map2 (\<lambda>a b. a - b) (tl xs) (butlast xs))
              (map2 (\<lambda>a b. a + b) (tl ys) (butlast ys))"
  have len: "length ?l = ?n" using assms by simp
  have nth: "?l ! i = (ys ! Suc i + ys ! i) / 2 * (xs ! Suc i - xs ! i)" if "i < ?n" for i
    using that assms by (simp add: nth_tl nth_butlast)
  have "real_trapz ys xs = (\<Sum>i = 0..<?n. ?l ! i)"
    unfolding real_trapz_def using len by (simp add: sum_list_sum_nth)
  also have "\<dots> = (\<Sum>i = 0..<?n. (ys ! Suc i + ys ! i) / 2 * (xs ! Suc i - xs ! i))"
    using nth by (intro sum.cong) auto
  also have "\<dots> = (\<Sum>i = Suc 0..<Suc ?n. (ys ! i + ys ! (i - 1)) / 2 * (xs ! i - xs ! (i - 1)))"
    by (simp only: sum.shift_bounds_Suc_ivl diff_Suc_1)
  also have "\<dots> = (\<Sum>i = 1..<length xs. (ys ! i + ys ! (i - 1)) / 2 * (xs ! i - xs ! (i - 1)))"
    by (cases xs) simp_all
  finally show ?thesis .
qed

lemma depletion_finite:
  "ti \<noteq> 0 \<Longrightarrow> \<exists>a. depletion tc ti fm i = Fin a"
  by (induction i) (auto simp: quotient_def)

lemma depletion_nonfinite:
  "depletion tc 0 fm (Suc i) = NonFinite"
  by (cases "depletion tc 0 fm i") (simp_all add: quotient_def)

lemma depletion_step:
  assumes "ti \<noteq> 0"
  shows "\<exists>a b. depletion tc ti fm (Suc i) = Fin a \<and> depletion tc ti fm i = Fin b \<and>
    a = b - (val (dict_values tc ! Suc i) + val (dict_values tc ! i)) / 2
            * (val (dict_keys tc ! Suc i) - val (dict_keys tc ! i)) / ti * fm"
proof -
  obtain b where "depletion tc ti fm i = Fin b"
    using depletion_finite [OF assms] by blast
  then show ?thesis using assms by (simp add: quotient_def)
qed

lemma curve_keys_length: "tc \<noteq> [] \<Longrightarrow> length (curve_keys tc) = length tc"
  by (cases tc) (simp_all add: curve_keys_def dict_keys_def)

lemma Motor_init_depletion:
  assumes "tc \<noteq> []" "distinct (map val (dict_keys tc))" "val (dict_keys tc ! 0) = 0"
    "\<not> truthy_dict fmc_arg" "fm \<noteq> 0"
    "np_trapz (dict_values tc) (dict_keys tc) \<noteq> PyNumber 0 \<or> length tc < 2"
  shows "Motor_init dm tc fmc_arg (Some fm) =
    Inr \<lparr>Motor.dry_mass = dm, thrust_curve = tc,
         total_impulse = scalar_val (np_trapz (dict_values tc) (dict_keys tc)),
         burn_time = Max (set (map val (dict_keys tc))),
         fuel_mass_curve = zip (curve_keys tc)
           (map (depletion tc (scalar_val (np_trapz (dict_values tc) (dict_keys tc))) fm)
              [0..<length tc]),
         fuel_mass = Fin fm\<rparr>"
proof -
  let ?I = "np_trapz (dict_values tc) (dict_keys tc)"
  have ne: "dict_keys tc \<noteq> []" using assms(1) by (simp add: dict_keys_def)
  have len: "length (dict_keys tc) = length tc" by (simp add: dict_keys_def)
  obtain k where k: "length tc = Suc k" using assms(1) by (cases tc) auto
  have "fuel_loop tc (dict_keys tc) ?I fm [1..<length (dict_keys tc)] [(PyInt 0, Fin fm)] =
      Inr (zip (curve_keys tc) (map (depletion tc (scalar_val ?I) fm) [0..<length tc]))"
    using fuel_loop_closed [OF assms(2,3,6), of k fm] k len curve_keys_length [OF assms(1)]
    by simp
  moreover obtain b where "py_max (dict_keys tc) = Inr b"
      "val b = Max (set (map val (dict_keys tc)))"
    using py_max_Max [OF ne] by blast
  ultimately show ?thesis
    using assms(4,5) by (simp add: Motor_init_def truthy_num_def Let_def)
qed

lemma Motor_init_zero_division:
  assumes "2 \<le> length tc" "val (dict_keys tc ! 0) = 0" "\<not> truthy_dict fmc_arg" "fm \<noteq> 0"
    "np_trapz (dict_values tc) (dict_keys tc) = PyNumber 0"
  shows "Motor_init dm tc fmc_arg (Some fm) = Inl ZeroDivisionError"
proof -
  have ne: "dict_keys tc \<noteq> []" using assms(1) by (auto simp: dict_keys_def)
  obtain b where "py_max (dict_keys tc) = Inr b" using py_max_Max [OF ne] by blast
  then show ?thesis
    using fuel_loop_zero_division [OF assms(1,2), of fm] assms(3,4,5)
    by (simp add: Motor_init_def truthy_num_def Let_def)
qed

lemma depletion_lookup:
  assumes "tc \<noteq> []" "distinct (map val (dict_keys tc))" "val (dict_keys tc ! 0) = 0"
    "i < length tc"
  shows "dict_get (zip (curve_keys tc) (map (depletion tc ti fm) [0..<length tc]))
           (val (dict_keys tc ! i)) = Inr (depletion tc ti fm i)"
proof -
  have vals: "map val (curve_keys tc) = map val (dict_keys tc)"
    using curve_keys_val [OF assms(1,3)] .
  have len: "length (curve_keys tc) = length tc" using curve_keys_length [OF assms(1)] .
  have "val (curve_keys tc ! i) = val (dict_keys tc ! i)"
    using vals len assms(4) by (metis length_map nth_map)
  moreover have "distinct (map val (curve_keys tc))" using assms(2) vals by simp
  ultimately show ?thesis
    using dict_get_zip [of "curve_keys tc" "map (depletion tc ti fm) [0..<length tc]" i]
      len assms(4)
    by simp
qed

lemma Motor_init_Inr_fields:
  assumes "Motor_init dm tc fmc_arg fm_arg = Inr m"
  shows "tc \<noteq> [] \<and> total_impulse m = scalar_val (np_trapz (dict_values tc) (dict_keys tc))
    \<and> burn_time m = Max (set (map val (dict_keys tc)))"
proof (cases tc)
  case Nil
  with assms show ?thesis by (simp add: Motor_init_def dict_keys_def)
next
  case (Cons p ps)
  then have "dict_keys tc \<noteq> []" by (simp add: dict_keys_def)
  from py_max_Max [OF this] obtain b where "py_max (dict_keys tc) = Inr b"
      "val b = Max (set (map val (dict_keys tc)))" by blast
  with assms Cons show ?thesis
    by (auto simp: Motor_init_def Let_def split: if_splits sum.splits)
qed

lemma Max_sorted_last:
  "sorted_wrt (<) xs \<Longrightarrow> xs \<noteq> [] \<Longrightarrow> Max (set xs) = last (xs :: real list)"
proof (induction xs)
  case Nil
  then show ?case by simp
next
  case (Cons x xs)
  show ?case
  proof (cases "xs = []")
    case True
    then show ?thesis by simp
  next
    case False
    with Cons have "Max (set xs) = last xs" "x < last xs" by auto
    with False show ?thesis by (simp add: max_def)
  qed
qed

lemma py_truediv_error: "ti \<noteq> PyNumber 0 \<Longrightarrow> py_truediv x ti = Inl e \<Longrightarrow> e = KeyError"
  by (simp add: py_truediv_quotient)

lemma fuel_step_error:
  "ti \<noteq> PyNumber 0 \<Longrightarrow> fuel_step tc tms ti fm fmc t = Inl e \<Longrightarrow> e = KeyError"
  by (auto simp: fuel_step_def py_truediv_quotient split: sum.splits dest: dict_get_error)

lemma fuel_loop_error:
  "ti \<noteq> PyNumber 0 \<Longrightarrow> fuel_loop tc tms ti fm idx fmc = Inl e \<Longrightarrow> e = KeyError"
  by (induction idx arbitrary: fmc) (auto split: sum.splits dest: fuel_step_error)

lemma Motor_init_error:
  assumes "tc \<noteq> []" "np_trapz (dict_values tc) (dict_keys tc) \<noteq> PyNumber 0"
    "Motor_init dm tc fmc_arg fm_arg = Inl e"
  shows "e = KeyError"
proof -
  have "dict_keys tc \<noteq> []" using assms(1) by (simp add: dict_keys_def)
  from py_max_Max [OF this] obtain b where "py_max (dict_keys tc) = Inr b" by blast
  with assms(3) show ?thesis
    by (auto simp: Motor_init_def Let_def split: if_splits sum.splits
        dest: dict_get_error fuel_loop_error [OF assms(2)])
qed

section \<open>Claims about Motor\<close>

text \<open>
  C1 (general part). With no fuel-mass curve, a nonzero total fuel mass \<open>F\<close>, strictly
  increasing time keys starting at \<open>0\<close> and a nonzero \<open>total_impulse\<close> (as \<open>np.trapz\<close>
  returned it), construction succeeds, the derived curve has the value \<open>F\<close> at the first
  key and, at every later key \<open>t_i\<close>, the value at \<open>t_(i-1)\<close> minus
  \<open>(thrust[t_i] + thrust[t_(i-1)]) / 2 * (t_i - t_(i-1)) / total_impulse * F\<close>.
\<close>

theorem C1_depletion_recurrence:
  assumes "sorted_wrt (<) (map val (dict_keys tc))" and "tc \<noteq> []"
    and "val (dict_keys tc ! 0) = 0"
    and "scalar_val (np_trapz (dict_values tc) (dict_keys tc)) \<noteq> 0"
    and "\<not> truthy_dict fmc_arg" and "F \<noteq> 0"
  shows "\<exists>m. Motor_init dm tc fmc_arg (Some F) = Inr m
    \<and> total_impulse m = scalar_val (np_trapz (dict_values tc) (dict_keys tc))
    \<and> dict_get (fuel_mass_curve m) (val (dict_keys tc ! 0)) = Inr (Fin F)
    \<and> (\<forall>i. 1 \<le> i \<and> i < length tc \<longrightarrow>
         (\<exists>a b. dict_get (fuel_mass_curve m) (val (dict_keys tc ! i)) = Inr (Fin a)
            \<and> dict_get (fuel_mass_curve m) (val (dict_keys tc ! (i - 1))) = Inr (Fin b)
            \<and> a = b - (val (dict_values tc ! i) + val (dict_values tc ! (i - 1))) / 2
                       * (val (dict_keys tc ! i) - val (dict_keys tc ! (i - 1)))
                       / total_impulse m * F))"
proof -
  let ?I = "scalar_val (np_trapz (dict_values tc) (dict_keys tc))"
  let ?c = "zip (curve_keys tc) (map (depletion tc ?I F) [0..<length tc])"
  have d: "distinct (map val (dict_keys tc))"
    using assms(1) by (simp add: strict_sorted_iff)
  have nz: "np_trapz (dict_values tc) (dict_keys tc) \<noteq> PyNumber 0 \<or> length tc < 2"
    using assms(4) by auto
  note init = Motor_init_depletion [OF assms(2) d assms(3,5,6) nz, of dm]
  have look: "dict_get ?c (val (dict_keys tc ! i)) = Inr (depletion tc ?I F i)"
    if "i < length tc" for i
    using depletion_lookup [OF assms(2) d assms(3) that] .
  have first: "dict_get ?c (val (dict_keys tc ! 0)) = Inr (Fin F)"
    using look [of 0] assms(2) by simp
  have rec: "\<exists>a b. dict_get ?c (val (dict_keys tc ! i)) = Inr (Fin a)
        \<and> dict_get ?c (val (dict_keys tc ! (i - 1))) = Inr (Fin b)
        \<and> a = b - (val (dict_values tc ! i) + val (dict_values tc ! (i - 1))) / 2
                   * (val (dict_keys tc ! i) - val (dict_keys tc ! (i - 1))) / ?I * F"
    if "1 \<le> i" "i < length tc" for i
  proof -
    from that obtain j where j: "i = Suc j" by (cases i) auto
    with that have "j < length tc" by simp
    then show ?thesis
      using depletion_step [OF assms(4), of tc F j] look [of i] look [of j] that j by auto
  qed
  show ?thesis
    using init first rec by simp
qed

text \<open>
  C1, the worked example as the specification prints it: for the thrust curve
  \<open>{0: 0, 1: 1000, 2: 500, 3: 0}\<close> the total impulse is 1500, not 1750, so the value at
  time 1 is \<open>4/3\<close> and differs from \<open>2.0 - (0+1000)/2 * 1 / 1750 * 2.0\<close>.
\<close>

theorem C1_example_counterexample:
  "Motor_init 1 [(PyInt 0, PyInt 0), (PyInt 1, PyInt 1000), (PyInt 2, PyInt 500), (PyInt 3, PyInt 0)]
      None (Some 2) =
     Inr \<lparr>Motor.dry_mass = 1,
          thrust_curve =
            [(PyInt 0, PyInt 0), (PyInt 1, PyInt 1000), (PyInt 2, PyInt 500), (PyInt 3, PyInt 0)],
          total_impulse = 1500, burn_time = 3,
          fuel_mass_curve =
            [(PyInt 0, Fin 2), (PyInt 1, Fin (4 / 3)), (PyInt 2, Fin (1 / 3)), (PyInt 3, Fin 0)],
          fuel_mass = Fin 2\<rparr>
   \<and> dict_get
         [(PyInt 0, Fin 2), (PyInt 1, Fin (4 / 3)), (PyInt 2, Fin (1 / 3)), (PyInt 3, Fin 0)] 1
       \<noteq> Inr (Fin (2 - (0 + 1000) / 2 * 1 / 1750 * 2))"
  by (simp add: Motor_eval)

text \<open>
  C1 at the example curve, with the total impulse the code computes, and at an int-valued
  curve on which the \<open>int64\<close> product wraps (\<open>total_impulse = -2^61\<close>): the recurrence
  uses the stored \<open>total_impulse\<close> in both.
\<close>

theorem C1_depletion_recurrence_witness:
  "(\<exists>m. Motor_init 1
          [(PyInt 0, PyInt 0), (PyInt 1, PyInt 1000), (PyInt 2, PyInt 500), (PyInt 3, PyInt 0)]
          None (Some 2) = Inr m
     \<and> total_impulse m = 1500
     \<and> dict_get (fuel_mass_curve m) 0 = Inr (Fin 2)
     \<and> dict_get (fuel_mass_curve m) 1 = Inr (Fin (2 - (0 + 1000) / 2 * 1 / 1500 * 2)))
   \<and> (\<exists>m. Motor_init 1 [(PyInt 0, PyInt 0), (PyInt 4294967296, PyInt 3221225472)]
          None (Some 2) = Inr m
     \<and> total_impulse m = - 2305843009213693952
     \<and> dict_get (fuel_mass_curve m) 4294967296 =
         Inr (Fin (2 - (3221225472 + 0) / 2 * 4294967296 / (- 2305843009213693952) * 2)))"
proof -
  let ?tc = "[(PyInt 0, PyInt 0), (PyInt 1, PyInt 1000), (PyInt 2, PyInt 500), (PyInt 3, PyInt 0)]"
  let ?tw = "[(PyInt 0, PyInt 0), (PyInt 4294967296, PyInt 3221225472)]"
  have h5: "\<not> truthy_dict (None :: npfloat pydict option)" by (simp add: truthy_dict_def)
  have h6: "(2 :: real) \<noteq> 0" by simp
  have h1: "sorted_wrt (<) (map val (dict_keys ?tc))" by (simp add: dict_keys_def)
  have h2: "?tc \<noteq> []" by simp
  have h3: "val (dict_keys ?tc ! 0) = 0" by (simp add: dict_keys_def)
  have I: "scalar_val (np_trapz (dict_values ?tc) (dict_keys ?tc)) = 1500"
    by (simp add: Motor_eval)
  have h4: "scalar_val (np_trapz (dict_values ?tc) (dict_keys ?tc)) \<noteq> 0" by (simp add: I)
  from C1_depletion_recurrence [OF h1 h2 h3 h4 h5 h6, of 1]
  obtain m where m: "Motor_init 1 ?tc None (Some 2) = Inr m"
      "total_impulse m = scalar_val (np_trapz (dict_values ?tc) (dict_keys ?tc))"
      "dict_get (fuel_mass_curve m) (val (dict_keys ?tc ! 0)) = Inr (Fin 2)"
    and r: "\<forall>i. 1 \<le> i \<and> i < length ?tc \<longrightarrow>
         (\<exists>a b. dict_get (fuel_mass_curve m) (val (dict_keys ?tc ! i)) = Inr (Fin a)
            \<and> dict_get (fuel_mass_curve m) (val (dict_keys ?tc ! (i - 1))) = Inr (Fin b)
            \<and> a = b - (val (dict_values ?tc ! i) + val (dict_values ?tc ! (i - 1))) / 2
                       * (val (dict_keys ?tc ! i) - val (dict_keys ?tc ! (i - 1)))
                       / total_impulse m * 2)"
    by blast
  from r [rule_format, of 1] obtain a b where
      "dict_get (fuel_mass_curve m) (val (dict_keys ?tc ! 1)) = Inr (Fin a)"
      "dict_get (fuel_mass_curve m) (val (dict_keys ?tc ! (1 - 1))) = Inr (Fin b)"
      "a = b - (val (dict_values ?tc ! 1) + val (dict_values ?tc ! (1 - 1))) / 2
                 * (val (dict_keys ?tc ! 1) - val (dict_keys ?tc ! (1 - 1))) / total_impulse m * 2"
    by auto
  with m I have "dict_get (fuel_mass_curve m) 1 = Inr (Fin (2 - (0 + 1000) / 2 * 1 / 1500 * 2))"
    by (simp add: dict_keys_def dict_values_def)
  with m I have first: "\<exists>m. Motor_init 1 ?tc None (Some 2) = Inr m
     \<and> total_impulse m = 1500
     \<and> dict_get (fuel_mass_curve m) 0 = Inr (Fin 2)
     \<and> dict_get (fuel_mass_curve m) 1 = Inr (Fin (2 - (0 + 1000) / 2 * 1 / 1500 * 2))"
    by (auto simp: dict_keys_def)
  have w1: "sorted_wrt (<) (map val (dict_keys ?tw))" by (simp add: dict_keys_def)
  have w2: "?tw \<noteq> []" by simp
  have w3: "val (dict_keys ?tw ! 0) = 0" by (simp add: dict_keys_def)
  have J: "scalar_val (np_trapz (dict_values ?tw) (dict_keys ?tw)) = - 2305843009213693952"
    by (simp add: Motor_eval)
  have w4: "scalar_val (np_trapz (dict_values ?tw) (dict_keys ?tw)) \<noteq> 0" by (simp add: J)
  from C1_depletion_recurrence [OF w1 w2 w3 w4 h5 h6, of 1]
  obtain n where n: "Motor_init 1 ?tw None (Some 2) = Inr n"
      "total_impulse n = scalar_val (np_trapz (dict_values ?tw) (dict_keys ?tw))"
      "dict_get (fuel_mass_curve n) (val (dict_keys ?tw ! 0)) = Inr (Fin 2)"
    and s: "\<forall>i. 1 \<le> i \<and> i < length ?tw \<longrightarrow>
         (\<exists>a b. dict_get (fuel_mass_curve n) (val (dict_keys ?tw ! i)) = Inr (Fin a)
            \<and> dict_get (fuel_mass_curve n) (val (dict_keys ?tw ! (i - 1))) = Inr (Fin b)
            \<and> a = b - (val (dict_values ?tw ! i) + val (dict_values ?tw ! (i - 1))) / 2
                       * (val (dict_keys ?tw ! i) - val (dict_keys ?tw ! (i - 1)))
                       / total_impulse n * 2)"
    by blast
  from s [rule_format, of 1] obtain a' b' where
      "dict_get (fuel_mass_curve n) (val (dict_keys ?tw ! 1)) = Inr (Fin a')"
      "dict_get (fuel_mass_curve n) (val (dict_keys ?tw ! (1 - 1))) = Inr (Fin b')"
      "a' = b' - (val (dict_values ?tw ! 1) + val (dict_values ?tw ! (1 - 1))) / 2
                 * (val (dict_keys ?tw ! 1) - val (dict_keys ?tw ! (1 - 1))) / total_impulse n * 2"
    by auto
  with n J have "dict_get (fuel_mass_curve n) 4294967296 =
         Inr (Fin (2 - (3221225472 + 0) / 2 * 4294967296 / (- 2305843009213693952) * 2))"
    by (simp add: dict_keys_def dict_values_def)
  with n J have second: "\<exists>m. Motor_init 1 ?tw None (Some 2) = Inr m
     \<and> total_impulse m = - 2305843009213693952
     \<and> dict_get (fuel_mass_curve m) 4294967296 =
         Inr (Fin (2 - (3221225472 + 0) / 2 * 4294967296 / (- 2305843009213693952) * 2))"
    by auto
  from first second show ?thesis by blast
qed

text \<open>
  C2 (general part, without wrap-around). For a thrust curve with at least two strictly
  increasing time keys whose keys and values are floats or ints of absolute value below
  \<open>2^30\<close>, construction either raises \<open>KeyError\<close> (a fuel branch missing its key) or returns
  a Motor whose \<open>total_impulse\<close> is the sum over consecutive samples of
  \<open>(thrust[t_i] + thrust[t_(i-1)]) / 2 * (t_i - t_(i-1))\<close> and whose \<open>burn_time\<close> is the
  maximum time key, which is the last key.
\<close>

theorem C2_total_impulse_burn_time:
  assumes "sorted_wrt (<) (map val (dict_keys tc))" and "2 \<le> length tc"
    and "\<forall>p\<in>set tc. plain (fst p) \<and> plain (snd p)"
  shows "case Motor_init dm tc fmc_arg fm_arg of
      Inl e \<Rightarrow> e = KeyError
    | Inr m \<Rightarrow>
        total_impulse m =
          (\<Sum>i = 1..<length tc.
             (val (dict_values tc ! i) + val (dict_values tc ! (i - 1))) / 2
               * (val (dict_keys tc ! i) - val (dict_keys tc ! (i - 1))))
        \<and> burn_time m = Max (set (map val (dict_keys tc)))
        \<and> burn_time m = val (last (dict_keys tc))"
proof -
  have pk: "\<forall>a\<in>set (dict_keys tc). plain a" and pv: "\<forall>a\<in>set (dict_values tc). plain a"
    using assms(3) by (auto simp: dict_keys_def dict_values_def)
  have I: "np_trapz (dict_values tc) (dict_keys tc) =
      NpFloat64 (real_trapz (map val (dict_values tc)) (map val (dict_keys tc)))"
    using np_trapz_plain [OF pk pv] .
  have len: "length (map val (dict_values tc)) = length (map val (dict_keys tc))"
    by (simp add: dict_keys_def dict_values_def)
  have ne: "dict_keys tc \<noteq> []" and ne': "tc \<noteq> []" using assms(2) by (auto simp: dict_keys_def)
  have sum: "real_trapz (map val (dict_values tc)) (map val (dict_keys tc)) =
      (\<Sum>i = 1..<length tc.
             (val (dict_values tc ! i) + val (dict_values tc ! (i - 1))) / 2
               * (val (dict_keys tc ! i) - val (dict_keys tc ! (i - 1))))"
    unfolding real_trapz_sum [OF len]
    by (intro sum.cong) (auto simp: dict_keys_def dict_values_def)
  have last: "Max (set (map val (dict_keys tc))) = val (last (dict_keys tc))"
    using Max_sorted_last [OF assms(1)] ne by (simp add: last_map)
  show ?thesis
  proof (cases "Motor_init dm tc fmc_arg fm_arg")
    case (Inl e)
    have "np_trapz (dict_values tc) (dict_keys tc) \<noteq> PyNumber 0" by (simp add: I)
    from Motor_init_error [OF ne' this Inl] Inl show ?thesis by simp
  next
    case (Inr m)
    from Motor_init_Inr_fields [OF Inr] I sum last Inr show ?thesis by simp
  qed
qed

text \<open>
  C2 as stated fails twice. The example curve \<open>{0: 0, 1: 1000, 2: 500, 3: 0}\<close> yields
  \<open>total_impulse\<close> 1500, not 1750. And on the int-valued curve \<open>{0: 2^62, 1: 2^62}\<close> the
  sum \<open>y[1:] + y[:-1]\<close> wraps in \<open>int64\<close>, so \<open>total_impulse\<close> is \<open>-2^62\<close> while the
  trapezoid sum is \<open>2^62\<close>.
\<close>

theorem C2_example_counterexample:
  "Motor_init 1 [(PyInt 0, PyInt 0), (PyInt 1, PyInt 1000), (PyInt 2, PyInt 500), (PyInt 3, PyInt 0)]
      (Some [(PyInt 0, Fin 2), (PyInt 3, Fin 0)]) None =
     Inr \<lparr>Motor.dry_mass = 1,
          thrust_curve =
            [(PyInt 0, PyInt 0), (PyInt 1, PyInt 1000), (PyInt 2, PyInt 500), (PyInt 3, PyInt 0)],
          total_impulse = 1500, burn_time = 3,
          fuel_mass_curve = [(PyInt 0, Fin 2), (PyInt 3, Fin 0)],
          fuel_mass = Fin 2\<rparr>
   \<and> (1500 :: real) \<noteq> 1750
   \<and> Motor_init 1 [(PyInt 0, PyInt 4611686018427387904), (PyInt 1, PyInt 4611686018427387904)]
      None None =
     Inr \<lparr>Motor.dry_mass = 1,
          thrust_curve =
            [(PyInt 0, PyInt 4611686018427387904), (PyInt 1, PyInt 4611686018427387904)],
          total_impulse = - 4611686018427387904, burn_time = 1,
          fuel_mass_curve = [(PyInt 0, Fin 0), (PyInt 1, Fin 0)],
          fuel_mass = Fin 0\<rparr>
   \<and> (- 4611686018427387904 :: real)
       \<noteq> (4611686018427387904 + 4611686018427387904) / 2 * (1 - 0)"
  by (simp add: Motor_eval)

text \<open>
  C2 at the example curve: the trapezoid sum is \<open>500 + 750 + 250 = 1500\<close>.
\<close>

theorem C2_total_impulse_burn_time_witness:
  "case Motor_init 1
          [(PyInt 0, PyInt 0), (PyInt 1, PyInt 1000), (PyInt 2, PyInt 500), (PyInt 3, PyInt 0)]
          None None of
      Inl e \<Rightarrow> False
    | Inr m \<Rightarrow> total_impulse m = (0 + 1000) / 2 * 1 + (1000 + 500) / 2 * 1 + (500 + 0) / 2 * 1
        \<and> total_impulse m = 1500 \<and> burn_time m = 3"
proof -
  let ?tc = "[(PyInt 0, PyInt 0), (PyInt 1, PyInt 1000), (PyInt 2, PyInt 500), (PyInt 3, PyInt 0)]"
  have h1: "sorted_wrt (<) (map val (dict_keys ?tc))" by (simp add: dict_keys_def)
  have h2: "2 \<le> length ?tc" by simp
  have h3: "\<forall>p\<in>set ?tc. plain (fst p) \<and> plain (snd p)" by (simp add: plain_def)
  obtain m where m: "Motor_init 1 ?tc None None = Inr m"
    by (simp add: Motor_init_def Let_def truthy_dict_def truthy_num_def dict_keys_def)
  from C2_total_impulse_burn_time [OF h1 h2 h3, of 1 None None] m
  have "total_impulse m =
          (\<Sum>i = 1..<length ?tc.
             (val (dict_values ?tc ! i) + val (dict_values ?tc ! (i - 1))) / 2
               * (val (dict_keys ?tc ! i) - val (dict_keys ?tc ! (i - 1))))"
    and "burn_time m = val (last (dict_keys ?tc))" by simp_all
  then have "total_impulse m = (0 + 1000) / 2 * 1 + (1000 + 500) / 2 * 1 + (500 + 0) / 2 * 1"
    and "burn_time m = 3"
    by (simp_all add: dict_keys_def dict_values_def)
  with m show ?thesis by simp
qed

text \<open>
  C3 (what the code does). \<open>Motor.__init__\<close> validates nothing. When the total impulse is
  zero and a proportional derivation is requested (no fuel-mass curve, nonzero fuel mass
  \<open>F\<close>, distinct time keys, first key \<open>0\<close>), there are two outcomes. If \<open>np.trapz\<close>
  returned a plain Python number (an \<open>object\<close> array was involved) and there are at least
  two samples, the first division raises Python's \<open>ZeroDivisionError\<close>. Otherwise
  construction succeeds: dividing by the zero NumPy scalar raises nothing,
  \<open>total_impulse\<close> is \<open>0\<close>, the curve holds \<open>F\<close> at the first key and a non-finite value
  (\<open>nan\<close> or \<open>inf\<close>) at every later key.
\<close>

theorem C3_zero_impulse_not_validated:
  assumes "tc \<noteq> []" and "distinct (map val (dict_keys tc))" and "val (dict_keys tc ! 0) = 0"
    and "scalar_val (np_trapz (dict_values tc) (dict_keys tc)) = 0"
    and "\<not> truthy_dict fmc_arg" and "F \<noteq> 0"
  shows "if 2 \<le> length tc \<and> np_trapz (dict_values tc) (dict_keys tc) = PyNumber 0
    then Motor_init dm tc fmc_arg (Some F) = Inl ZeroDivisionError
    else \<exists>m. Motor_init dm tc fmc_arg (Some F) = Inr m
      \<and> total_impulse m = 0
      \<and> dict_get (fuel_mass_curve m) (val (dict_keys tc ! 0)) = Inr (Fin F)
      \<and> (\<forall>i. 1 \<le> i \<and> i < length tc \<longrightarrow>
            dict_get (fuel_mass_curve m) (val (dict_keys tc ! i)) = Inr NonFinite)"
proof (cases "2 \<le> length tc \<and> np_trapz (dict_values tc) (dict_keys tc) = PyNumber 0")
  case True
  then show ?thesis
    using Motor_init_zero_division [OF _ assms(3,5,6), of dm] by simp
next
  case False
  let ?c = "zip (curve_keys tc) (map (depletion tc 0 F) [0..<length tc])"
  from False have nz: "np_trapz (dict_values tc) (dict_keys tc) \<noteq> PyNumber 0 \<or> length tc < 2"
    by auto
  note init = Motor_init_depletion [OF assms(1,2,3,5,6) nz, of dm]
  have look: "dict_get ?c (val (dict_keys tc ! i)) = Inr (depletion tc 0 F i)"
    if "i < length tc" for i
    using depletion_lookup [OF assms(1,2,3) that] .
  have first: "dict_get ?c (val (dict_keys tc ! 0)) = Inr (Fin F)"
    using look [of 0] assms(1) by simp
  have later: "dict_get ?c (val (dict_keys tc ! i)) = Inr NonFinite"
    if "1 \<le> i" "i < length tc" for i
  proof -
    from that obtain j where "i = Suc j" by (cases i) auto
    with look [OF that(2)] show ?thesis by (simp only: depletion_nonfinite)
  qed
  from False init first later show ?thesis by (simp add: assms(4))
qed

text \<open>
  C3 as stated fails: an all-zero thrust curve with \<open>fuel_mass = 2.0\<close> is accepted, no
  error is raised, and the entry at time 1 is non-finite.
\<close>

theorem C3_zero_impulse_counterexample:
  "np_trapz (dict_values [(PyInt 0, PyInt 0), (PyInt 1, PyInt 0)])
      (dict_keys [(PyInt 0, PyInt 0), (PyInt 1, PyInt 0)]) = NpFloat64 0
   \<and> Motor_init 1 [(PyInt 0, PyInt 0), (PyInt 1, PyInt 0)] None (Some 2) =
     Inr \<lparr>Motor.dry_mass = 1, thrust_curve = [(PyInt 0, PyInt 0), (PyInt 1, PyInt 0)],
          total_impulse = 0, burn_time = 1,
          fuel_mass_curve = [(PyInt 0, Fin 2), (PyInt 1, NonFinite)],
          fuel_mass = Fin 2\<rparr>"
  by (simp add: Motor_eval)

text \<open>
  C3 at an all-zero thrust curve with three samples (a NumPy scalar: non-finite entries)
  and at \<open>{0: 0, 2^64: 0}\<close> (the key \<open>2^64\<close> makes an \<open>object\<close> array:
  \<open>ZeroDivisionError\<close>).
\<close>

theorem C3_zero_impulse_not_validated_witness:
  "(\<exists>m. Motor_init 1 [(PyInt 0, PyInt 0), (PyInt 1, PyInt 0), (PyInt 2, PyInt 0)]
          None (Some 2) = Inr m
     \<and> total_impulse m = 0
     \<and> dict_get (fuel_mass_curve m) 0 = Inr (Fin 2)
     \<and> dict_get (fuel_mass_curve m) 1 = Inr NonFinite
     \<and> dict_get (fuel_mass_curve m) 2 = Inr NonFinite)
   \<and> Motor_init 1 [(PyInt 0, PyInt 0), (PyInt 18446744073709551616, PyInt 0)]
        None (Some 2) = Inl ZeroDivisionError"
proof -
  let ?tc = "[(PyInt 0, PyInt 0), (PyInt 1, PyInt 0), (PyInt 2, PyInt 0)]"
  let ?to = "[(PyInt 0, PyInt 0), (PyInt 18446744073709551616, PyInt 0)]"
  have h5: "\<not> truthy_dict (None :: npfloat pydict option)" by (simp add: truthy_dict_def)
  have h6: "(2 :: real) \<noteq> 0" by simp
  have h1: "?tc \<noteq> []" by simp
  have h2: "distinct (map val (dict_keys ?tc))" by (simp add: dict_keys_def)
  have h3: "val (dict_keys ?tc ! 0) = 0" by (simp add: dict_keys_def)
  have I: "np_trapz (dict_values ?tc) (dict_keys ?tc) = NpFloat64 0"
    by (simp add: Motor_eval)
  have h4: "scalar_val (np_trapz (dict_values ?tc) (dict_keys ?tc)) = 0" by (simp add: I)
  from C3_zero_impulse_not_validated [OF h1 h2 h3 h4 h5 h6, of 1] I
  obtain m where m: "Motor_init 1 ?tc None (Some 2) = Inr m" "total_impulse m = 0"
      "dict_get (fuel_mass_curve m) (val (dict_keys ?tc ! 0)) = Inr (Fin 2)"
    and r: "\<forall>i. 1 \<le> i \<and> i < length ?tc \<longrightarrow>
          dict_get (fuel_mass_curve m) (val (dict_keys ?tc ! i)) = Inr NonFinite"
    by auto
  from r [rule_format, of 1] r [rule_format, of 2]
  have "dict_get (fuel_mass_curve m) 1 = Inr NonFinite"
    and "dict_get (fuel_mass_curve m) 2 = Inr NonFinite"
    by (simp_all add: dict_keys_def)
  with m have first: "\<exists>m. Motor_init 1 ?tc None (Some 2) = Inr m
     \<and> total_impulse m = 0
     \<and> dict_get (fuel_mass_curve m) 0 = Inr (Fin 2)
     \<and> dict_get (fuel_mass_curve m) 1 = Inr NonFinite
     \<and> dict_get (fuel_mass_curve m) 2 = Inr NonFinite"
    by (auto simp: dict_keys_def)
  have o1: "?to \<noteq> []" by simp
  have o2: "distinct (map val (dict_keys ?to))" by (simp add: dict_keys_def)
  have o3: "val (dict_keys ?to ! 0) = 0" by (simp add: dict_keys_def)
  have J: "np_trapz (dict_values ?to) (dict_keys ?to) = PyNumber 0"
    by (simp add: Motor_eval)
  have o4: "scalar_val (np_trapz (dict_values ?to) (dict_keys ?to)) = 0" by (simp add: J)
  from C3_zero_impulse_not_validated [OF o1 o2 o3 o4 h5 h6, of 1] J
  have second: "Motor_init 1 ?to None (Some 2) = Inl ZeroDivisionError" by simp
  from first second show ?thesis by blast
qed

text \<open>
  C4 (what the code does), for a non-empty thrust curve with distinct keys. A supplied
  non-empty curve containing key \<open>0\<close> keeps its own keys. The proportional branch, when
  the first thrust key is \<open>0\<close>, either raises \<open>ZeroDivisionError\<close> (two or more samples
  and a zero total impulse returned as a plain Python number) or yields exactly the
  thrust curve's keys in the same order. With no fuel information the keys are \<open>0\<close> and
  \<open>burn_time\<close> (one key when \<open>burn_time = 0\<close>). Keys are compared by value.
\<close>

theorem C4_fuel_mass_curve_keys:
  assumes "tc \<noteq> []" and "distinct (map val (dict_keys tc))"
  shows "(truthy_dict fmc_arg \<and> 0 \<in> set (map val (dict_keys (the fmc_arg))) \<longrightarrow>
            (\<exists>m. Motor_init dm tc fmc_arg fm_arg = Inr m
               \<and> dict_keys (fuel_mass_curve m) = dict_keys (the fmc_arg)))
       \<and> (\<not> truthy_dict fmc_arg \<and> truthy_num fm_arg \<and> val (dict_keys tc ! 0) = 0 \<longrightarrow>
            (if 2 \<le> length tc \<and> np_trapz (dict_values tc) (dict_keys tc) = PyNumber 0
             then Motor_init dm tc fmc_arg fm_arg = Inl ZeroDivisionError
             else \<exists>m. Motor_init dm tc fmc_arg fm_arg = Inr m
               \<and> map val (dict_keys (fuel_mass_curve m)) = map val (dict_keys tc)))
       \<and> (\<not> truthy_dict fmc_arg \<and> \<not> truthy_num fm_arg \<longrightarrow>
            (\<exists>m. Motor_init dm tc fmc_arg fm_arg = Inr m
               \<and> burn_time m = Max (set (map val (dict_keys tc)))
               \<and> map val (dict_keys (fuel_mass_curve m)) =
                   (if burn_time m = 0 then [0] else [0, burn_time m])))"
proof (intro conjI impI)
  have ne: "dict_keys tc \<noteq> []" using assms(1) by (simp add: dict_keys_def)
  from py_max_Max [OF ne] obtain bt where
    mx: "py_max (dict_keys tc) = Inr bt" "val bt = Max (set (map val (dict_keys tc)))"
    by blast
  {
    assume a: "truthy_dict fmc_arg \<and> 0 \<in> set (map val (dict_keys (the fmc_arg)))"
    then obtain v where "dict_get (the fmc_arg) 0 = Inr v"
      using dict_get_present [of 0 "the fmc_arg"] by blast
    with a mx show "\<exists>m. Motor_init dm tc fmc_arg fm_arg = Inr m
               \<and> dict_keys (fuel_mass_curve m) = dict_keys (the fmc_arg)"
      by (simp add: Motor_init_def Let_def)
  next
    assume a: "\<not> truthy_dict fmc_arg \<and> truthy_num fm_arg \<and> val (dict_keys tc ! 0) = 0"
    then obtain F where F: "fm_arg = Some F" "F \<noteq> 0"
      by (auto simp: truthy_num_def split: option.splits)
    show "if 2 \<le> length tc \<and> np_trapz (dict_values tc) (dict_keys tc) = PyNumber 0
             then Motor_init dm tc fmc_arg fm_arg = Inl ZeroDivisionError
             else \<exists>m. Motor_init dm tc fmc_arg fm_arg = Inr m
               \<and> map val (dict_keys (fuel_mass_curve m)) = map val (dict_keys tc)"
    proof (cases "2 \<le> length tc \<and> np_trapz (dict_values tc) (dict_keys tc) = PyNumber 0")
      case True
      with a F Motor_init_zero_division [of tc fmc_arg F dm] show ?thesis by simp
    next
      case False
      then have nz: "np_trapz (dict_values tc) (dict_keys tc) \<noteq> PyNumber 0 \<or> length tc < 2"
        by auto
      have "length (curve_keys tc) = length (map (depletion tc ti F) [0..<length tc])" for ti
        using curve_keys_length [OF assms(1)] by simp
      from dict_keys_zip [OF this] a F False curve_keys_val [OF assms(1)]
        Motor_init_depletion [OF assms(1,2) _ _ F(2) nz, of fmc_arg dm]
      show ?thesis by simp
    qed
  next
    assume a: "\<not> truthy_dict fmc_arg \<and> \<not> truthy_num fm_arg"
    with mx show "\<exists>m. Motor_init dm tc fmc_arg fm_arg = Inr m
               \<and> burn_time m = Max (set (map val (dict_keys tc)))
               \<and> map val (dict_keys (fuel_mass_curve m)) =
                   (if burn_time m = 0 then [0] else [0, burn_time m])"
      by (auto simp: Motor_init_def Let_def dict_keys_def)
  }
qed

text \<open>
  C4 as stated fails: with no fuel information and a four-sample thrust curve the
  fuel-mass curve is \<open>{0: 0, 3: 0}\<close>; the thrust key \<open>1\<close> is missing from it.
\<close>

theorem C4_keys_counterexample:
  "Motor_init 1 [(PyInt 0, PyInt 0), (PyInt 1, PyInt 1000), (PyInt 2, PyInt 500), (PyInt 3, PyInt 0)]
      None None =
     Inr \<lparr>Motor.dry_mass = 1,
          thrust_curve =
            [(PyInt 0, PyInt 0), (PyInt 1, PyInt 1000), (PyInt 2, PyInt 500), (PyInt 3, PyInt 0)],
          total_impulse = 1500, burn_time = 3,
          fuel_mass_curve = [(PyInt 0, Fin 0), (PyInt 3, Fin 0)],
          fuel_mass = Fin 0\<rparr>
   \<and> 1 \<in> set (map val (dict_keys
         [(PyInt 0, PyInt 0), (PyInt 1, PyInt 1000), (PyInt 2, PyInt 500), (PyInt 3, PyInt 0)]))
   \<and> 1 \<notin> set (map val (dict_keys [(PyInt 0, Fin 0), (PyInt 3, Fin 0)]))"
  by (simp add: Motor_eval)

text \<open>
  C4 at the example curve, one construction per branch, and at \<open>{0: 0, 2^64: 0}\<close> for the
  proportional branch.
\<close>

theorem C4_fuel_mass_curve_keys_witness:
  "(\<exists>m. Motor_init 1
           [(PyInt 0, PyInt 0), (PyInt 1, PyInt 1000), (PyInt 2, PyInt 500), (PyInt 3, PyInt 0)]
           (Some [(PyInt 0, Fin 2), (PyInt 10, Fin 0)]) None = Inr m
      \<and> dict_keys (fuel_mass_curve m) = [PyInt 0, PyInt 10])
   \<and> (\<exists>m. Motor_init 1
           [(PyInt 0, PyInt 0), (PyInt 1, PyInt 1000), (PyInt 2, PyInt 500), (PyInt 3, PyInt 0)]
           None (Some 2) = Inr m
      \<and> map val (dict_keys (fuel_mass_curve m)) = [0, 1, 2, 3])
   \<and> Motor_init 1 [(PyInt 0, PyInt 0), (PyInt 18446744073709551616, PyInt 0)]
        None (Some 2) = Inl ZeroDivisionError
   \<and> (\<exists>m. Motor_init 1
           [(PyInt 0, PyInt 0), (PyInt 1, PyInt 1000), (PyInt 2, PyInt 500), (PyInt 3, PyInt 0)]
           None None = Inr m
      \<and> map val (dict_keys (fuel_mass_curve m)) = [0, 3])"
proof -
  let ?tc = "[(PyInt 0, PyInt 0), (PyInt 1, PyInt 1000), (PyInt 2, PyInt 500), (PyInt 3, PyInt 0)]"
  let ?to = "[(PyInt 0, PyInt 0), (PyInt 18446744073709551616, PyInt 0)]"
  let ?fmc = "[(PyInt 0, Fin 2), (PyInt 10, Fin 0)] :: npfloat pydict"
  have h1: "?tc \<noteq> []" by simp
  have h2: "distinct (map val (dict_keys ?tc))" by (simp add: dict_keys_def)
  have o1: "?to \<noteq> []" by simp
  have o2: "distinct (map val (dict_keys ?to))" by (simp add: dict_keys_def)
  have mx: "Max (set (map val (dict_keys ?tc))) = 3" by (simp add: dict_keys_def)
  have I: "np_trapz (dict_values ?tc) (dict_keys ?tc) = NpFloat64 1500"
    by (simp add: Motor_eval)
  have J: "np_trapz (dict_values ?to) (dict_keys ?to) = PyNumber 0"
    by (simp add: Motor_eval)
  have b1: "truthy_dict (Some ?fmc) \<and> 0 \<in> set (map val (dict_keys (the (Some ?fmc))))"
    by (simp add: truthy_dict_def dict_keys_def)
  have b2: "\<not> truthy_dict (None :: npfloat pydict option) \<and> truthy_num (Some 2)
      \<and> val (dict_keys ?tc ! 0) = 0"
    by (simp add: truthy_dict_def truthy_num_def dict_keys_def)
  have b2o: "\<not> truthy_dict (None :: npfloat pydict option) \<and> truthy_num (Some 2)
      \<and> val (dict_keys ?to ! 0) = 0"
    by (simp add: truthy_dict_def truthy_num_def dict_keys_def)
  have b3: "\<not> truthy_dict (None :: npfloat pydict option) \<and> \<not> truthy_num None"
    by (simp add: truthy_dict_def truthy_num_def)
  from C4_fuel_mass_curve_keys [OF h1 h2, where fmc_arg = "Some ?fmc" and dm = 1
      and fm_arg = None] b1
  have "\<exists>m. Motor_init 1 ?tc (Some ?fmc) None = Inr m
      \<and> dict_keys (fuel_mass_curve m) = dict_keys (the (Some ?fmc))"
    by blast
  then have c1: "\<exists>m. Motor_init 1 ?tc (Some ?fmc) None = Inr m
      \<and> dict_keys (fuel_mass_curve m) = [PyInt 0, PyInt 10]"
    by (simp add: dict_keys_def)
  from C4_fuel_mass_curve_keys [OF h1 h2, where fmc_arg = None and dm = 1
      and fm_arg = "Some 2"] b2 I
  have "\<exists>m. Motor_init 1 ?tc None (Some 2) = Inr m
      \<and> map val (dict_keys (fuel_mass_curve m)) = map val (dict_keys ?tc)"
    by simp
  then have c2: "\<exists>m. Motor_init 1 ?tc None (Some 2) = Inr m
      \<and> map val (dict_keys (fuel_mass_curve m)) = [0, 1, 2, 3]"
    by (simp add: dict_keys_def)
  from C4_fuel_mass_curve_keys [OF o1 o2, where fmc_arg = None and dm = 1
      and fm_arg = "Some 2"] b2o J
  have c2o: "Motor_init 1 ?to None (Some 2) = Inl ZeroDivisionError"
    by simp
  from C4_fuel_mass_curve_keys [OF h1 h2, where fmc_arg = None and dm = 1
      and fm_arg = None] b3
  have "\<exists>m. Motor_init 1 ?tc None None = Inr m
      \<and> burn_time m = Max (set (map val (dict_keys ?tc)))
      \<and> map val (dict_keys (fuel_mass_curve m)) =
          (if burn_time m = 0 then [0] else [0, burn_time m])"
    by blast
  then have c3: "\<exists>m. Motor_init 1 ?tc None None = Inr m
      \<and> map val (dict_keys (fuel_mass_curve m)) = [0, 3]"
    unfolding mx by auto
  from c1 c2 c2o c3 show ?thesis by blast
qed

text \<open>
  C5 (with a positive fuel mass and a positive total impulse). With no fuel-mass curve,
  a total fuel mass \<open>F > 0\<close>, strictly increasing time keys starting at \<open>0\<close>, every thrust
  value \<open>\<ge> 0\<close> and a \<open>total_impulse > 0\<close> (as \<open>np.trapz\<close> returned it), the derived curve
  has the value \<open>F\<close> at time \<open>0\<close> and \<open>curve[t_i] \<le> curve[t_(i-1)]\<close> for every
  \<open>i \<ge> 1\<close>.
\<close>

theorem C5_depletion_non_increasing:
  assumes "sorted_wrt (<) (map val (dict_keys tc))" and "tc \<noteq> []"
    and "val (dict_keys tc ! 0) = 0"
    and "\<forall>i<length tc. 0 \<le> val (dict_values tc ! i)"
    and "0 < scalar_val (np_trapz (dict_values tc) (dict_keys tc))"
    and "\<not> truthy_dict fmc_arg" and "0 < F"
  shows "\<exists>m. Motor_init dm tc fmc_arg (Some F) = Inr m
    \<and> dict_get (fuel_mass_curve m) 0 = Inr (Fin F)
    \<and> (\<forall>i. 1 \<le> i \<and> i < length tc \<longrightarrow>
         (\<exists>a b. dict_get (fuel_mass_curve m) (val (dict_keys tc ! i)) = Inr (Fin a)
            \<and> dict_get (fuel_mass_curve m) (val (dict_keys tc ! (i - 1))) = Inr (Fin b)
            \<and> a \<le> b))"
proof -
  let ?I = "scalar_val (np_trapz (dict_values tc) (dict_keys tc))"
  let ?c = "zip (curve_keys tc) (map (depletion tc ?I F) [0..<length tc])"
  have d: "distinct (map val (dict_keys tc))"
    using assms(1) by (simp add: strict_sorted_iff)
  have F: "F \<noteq> 0" using assms(7) by simp
  have Inz: "?I \<noteq> 0" using assms(5) by simp
  have nz: "np_trapz (dict_values tc) (dict_keys tc) \<noteq> PyNumber 0 \<or> length tc < 2"
    using Inz by auto
  have lenk: "length (map val (dict_keys tc)) = length tc" by (simp add: dict_keys_def)
  note init = Motor_init_depletion [OF assms(2) d assms(3,6) F nz, of dm]
  have look: "dict_get ?c (val (dict_keys tc ! i)) = Inr (depletion tc ?I F i)"
    if "i < length tc" for i
    using depletion_lookup [OF assms(2) d assms(3) that] .
  have first: "dict_get ?c 0 = Inr (Fin F)"
    using look [of 0] assms(2,3) by simp
  have mono: "\<exists>a b. dict_get ?c (val (dict_keys tc ! i)) = Inr (Fin a)
        \<and> dict_get ?c (val (dict_keys tc ! (i - 1))) = Inr (Fin b) \<and> a \<le> b"
    if "1 \<le> i" "i < length tc" for i
  proof -
    from that obtain j where j: "i = Suc j" by (cases i) auto
    with that have jl: "j < length tc" by simp
    from depletion_step [OF Inz, of tc F j] obtain a b where
      ab: "depletion tc ?I F (Suc j) = Fin a" "depletion tc ?I F j = Fin b"
        "a = b - (val (dict_values tc ! Suc j) + val (dict_values tc ! j)) / 2
                 * (val (dict_keys tc ! Suc j) - val (dict_keys tc ! j)) / ?I * F"
      by blast
    have "Suc j < length (map val (dict_keys tc))" using that j lenk by simp
    from sorted_wrt_nth_less [OF assms(1) _ this, of j]
    have "map val (dict_keys tc) ! j < map val (dict_keys tc) ! Suc j" by simp
    then have "val (dict_keys tc ! j) < val (dict_keys tc ! Suc j)"
      using that j jl lenk by simp
    moreover have "0 \<le> val (dict_values tc ! Suc j)" "0 \<le> val (dict_values tc ! j)"
      using assms(4) that j by auto
    ultimately have "0 \<le> (val (dict_values tc ! Suc j) + val (dict_values tc ! j)) / 2
                 * (val (dict_keys tc ! Suc j) - val (dict_keys tc ! j)) / ?I * F"
      using assms(5,7) by simp
    with ab have "a \<le> b" by simp
    with ab look [of i] look [of j] that j jl show ?thesis by simp
  qed
  show ?thesis
    using init first mono by simp
qed

text \<open>
  C5 as stated (any nonzero \<open>F\<close>, any nonzero total impulse) fails twice. With
  \<open>F = -2\<close> the curve rises from \<open>-2\<close> at time 0 to \<open>-4/3\<close> at time 1. And with \<open>F = 2\<close>
  on the int-valued curve \<open>{0: 0, 2^32: 3 * 2^30}\<close> (thrust \<open>\<ge> 0\<close>) the \<open>int64\<close> product
  wraps, \<open>total_impulse\<close> is \<open>-2^61\<close> and the curve rises from 2 to 8.
\<close>

theorem C5_rising_curve_counterexample:
  "Motor_init 1 [(PyInt 0, PyInt 0), (PyInt 1, PyInt 1000), (PyInt 2, PyInt 500), (PyInt 3, PyInt 0)]
      None (Some (- 2)) =
     Inr \<lparr>Motor.dry_mass = 1,
          thrust_curve =
            [(PyInt 0, PyInt 0), (PyInt 1, PyInt 1000), (PyInt 2, PyInt 500), (PyInt 3, PyInt 0)],
          total_impulse = 1500, burn_time = 3,
          fuel_mass_curve =
            [(PyInt 0, Fin (- 2)), (PyInt 1, Fin (- 4 / 3)), (PyInt 2, Fin (- 1 / 3)),
             (PyInt 3, Fin 0)],
          fuel_mass = Fin (- 2)\<rparr>
   \<and> \<not> (- 4 / 3 \<le> (- 2 :: real))
   \<and> Motor_init 1 [(PyInt 0, PyInt 0), (PyInt 4294967296, PyInt 3221225472)] None (Some 2) =
     Inr \<lparr>Motor.dry_mass = 1,
          thrust_curve = [(PyInt 0, PyInt 0), (PyInt 4294967296, PyInt 3221225472)],
          total_impulse = - 2305843009213693952, burn_time = 4294967296,
          fuel_mass_curve = [(PyInt 0, Fin 2), (PyInt 4294967296, Fin 8)],
          fuel_mass = Fin 2\<rparr>
   \<and> \<not> (8 \<le> (2 :: real))"
  by (simp add: Motor_eval)

text \<open>
  C5 at the example curve with \<open>F = 2\<close>, between the samples at times 1 and 2.
\<close>

theorem C5_depletion_non_increasing_witness:
  "\<exists>m. Motor_init 1
          [(PyInt 0, PyInt 0), (PyInt 1, PyInt 1000), (PyInt 2, PyInt 500), (PyInt 3, PyInt 0)]
          None (Some 2) = Inr m
     \<and> dict_get (fuel_mass_curve m) 0 = Inr (Fin 2)
     \<and> (\<exists>a b. dict_get (fuel_mass_curve m) 2 = Inr (Fin a)
           \<and> dict_get (fuel_mass_curve m) 1 = Inr (Fin b) \<and> a \<le> b)"
proof -
  let ?tc = "[(PyInt 0, PyInt 0), (PyInt 1, PyInt 1000), (PyInt 2, PyInt 500), (PyInt 3, PyInt 0)]"
  have h1: "sorted_wrt (<) (map val (dict_keys ?tc))" by (simp add: dict_keys_def)
  have h2: "?tc \<noteq> []" by simp
  have h3: "val (dict_keys ?tc ! 0) = 0" by (simp add: dict_keys_def)
  have h4: "\<forall>i<length ?tc. 0 \<le> val (dict_values ?tc ! i)"
    by (simp add: dict_values_def less_Suc_eq)
  have h5: "0 < scalar_val (np_trapz (dict_values ?tc) (dict_keys ?tc))"
    by (simp add: Motor_eval)
  have h6: "\<not> truthy_dict (None :: npfloat pydict option)" by (simp add: truthy_dict_def)
  have h7: "(0 :: real) < 2" by simp
  from C5_depletion_non_increasing [OF h1 h2 h3 h4 h5 h6 h7, of 1]
  obtain m where m: "Motor_init 1 ?tc None (Some 2) = Inr m"
      "dict_get (fuel_mass_curve m) 0 = Inr (Fin 2)"
    and r: "\<forall>i. 1 \<le> i \<and> i < length ?tc \<longrightarrow>
         (\<exists>a b. dict_get (fuel_mass_curve m) (val (dict_keys ?tc ! i)) = Inr (Fin a)
            \<and> dict_get (fuel_mass_curve m) (val (dict_keys ?tc ! (i - 1))) = Inr (Fin b)
            \<and> a \<le> b)"
    by blast
  from r [rule_format, of 2]
  have "\<exists>a b. dict_get (fuel_mass_curve m) 2 = Inr (Fin a)
           \<and> dict_get (fuel_mass_curve m) 1 = Inr (Fin b) \<and> a \<le> b"
    by (simp add: dict_keys_def)
  with m show ?thesis by blast
qed

text \<open>
  C6. With a non-empty supplied fuel-mass curve that contains the key \<open>0\<close> (and a
  non-empty thrust curve, without which no Motor is constructed), the stored
  \<open>fuel_mass_curve\<close> is the supplied curve, whatever its keys, and \<open>fuel_mass\<close> is its
  value at \<open>0\<close>, whatever the \<open>fuel_mass\<close> argument.
\<close>

theorem C6_supplied_curve_used_unchanged:
  assumes "tc \<noteq> []" and "fmc \<noteq> []" and "dict_get fmc 0 = Inr v"
  shows "\<exists>m. Motor_init dm tc (Some fmc) fm_arg = Inr m
    \<and> fuel_mass_curve m = fmc \<and> fuel_mass m = v"
proof -
  have "dict_keys tc \<noteq> []" using assms(1) by (simp add: dict_keys_def)
  from py_max_Max [OF this] obtain bt where "py_max (dict_keys tc) = Inr bt" by blast
  with assms(2,3) show ?thesis
    by (simp add: Motor_init_def Let_def truthy_dict_def)
qed

text \<open>
  C6 with a supplied curve whose keys \<open>0, 10\<close> differ from the thrust curve's and with
  \<open>fuel_mass = 2.0\<close> supplied as well.
\<close>

theorem C6_supplied_curve_used_unchanged_witness:
  "\<exists>m. Motor_init 1
          [(PyInt 0, PyInt 0), (PyInt 1, PyInt 1000), (PyInt 2, PyInt 500), (PyInt 3, PyInt 0)]
          (Some [(PyInt 0, Fin 5), (PyInt 10, Fin 0)]) (Some 2) = Inr m
     \<and> fuel_mass_curve m = [(PyInt 0, Fin 5), (PyInt 10, Fin 0)] \<and> fuel_mass m = Fin 5"
proof -
  have h1: "[(PyInt 0, PyInt 0), (PyInt 1, PyInt 1000), (PyInt 2, PyInt 500), (PyInt 3, PyInt 0)]
      \<noteq> ([] :: pynum pydict)" by simp
  have h2: "[(PyInt 0, Fin 5), (PyInt 10, Fin 0)] \<noteq> ([] :: npfloat pydict)" by simp
  have h3: "dict_get [(PyInt 0, Fin 5), (PyInt 10, Fin 0)] 0 = Inr (Fin 5)" by simp
  from C6_supplied_curve_used_unchanged [OF h1 h2 h3, of 1 "Some 2"]
  show ?thesis .
qed

text \<open>
  C10 (for at least two samples). In the proportional branch over a thrust curve with at
  least two samples, a first time key other than \<open>0\<close> makes construction raise
  \<open>KeyError\<close>, so a successful construction has first key \<open>0\<close>.
\<close>

theorem C10_first_key_must_be_zero:
  assumes "2 \<le> length tc" and "\<not> truthy_dict fmc_arg" and "F \<noteq> 0"
  shows "(val (dict_keys tc ! 0) \<noteq> 0 \<longrightarrow> Motor_init dm tc fmc_arg (Some F) = Inl KeyError)
    \<and> ((\<exists>m. Motor_init dm tc fmc_arg (Some F) = Inr m) \<longrightarrow> val (dict_keys tc ! 0) = 0)"
proof -
  have ne: "dict_keys tc \<noteq> []" using assms(1) by (auto simp: dict_keys_def)
  from py_max_Max [OF ne] obtain bt where mx: "py_max (dict_keys tc) = Inr bt" by blast
  have idx: "[1..<length (dict_keys tc)] = 1 # [Suc 1..<length (dict_keys tc)]"
    using assms(1) by (intro upt_conv_Cons) (simp add: dict_keys_def)
  have fail: "Motor_init dm tc fmc_arg (Some F) = Inl KeyError" if "val (dict_keys tc ! 0) \<noteq> 0"
  proof -
    have "fuel_step tc (dict_keys tc) ti F [(PyInt 0, Fin F)] 1 = Inl KeyError" for ti
      using that by (simp add: fuel_step_def)
    then have "fuel_loop tc (dict_keys tc) ti F [1..<length (dict_keys tc)] [(PyInt 0, Fin F)]
        = Inl KeyError" for ti
      unfolding idx by (simp only: fuel_loop.simps sum.case)
    then show ?thesis
      using mx assms(2,3) by (simp add: Motor_init_def Let_def truthy_num_def)
  qed
  then show ?thesis by (cases "val (dict_keys tc ! 0) = 0") auto
qed

text \<open>
  C10 as stated fails for a single-sample thrust curve: the loop body never runs, so
  \<open>{5: 100}\<close> with \<open>fuel_mass = 2.0\<close> constructs a Motor although its first key is 5.
\<close>

theorem C10_single_sample_counterexample:
  "val (dict_keys [(PyInt 5, PyInt 100)] ! 0) \<noteq> 0
   \<and> Motor_init 1 [(PyInt 5, PyInt 100)] None (Some 2) =
     Inr \<lparr>Motor.dry_mass = 1, thrust_curve = [(PyInt 5, PyInt 100)],
          total_impulse = 0, burn_time = 5,
          fuel_mass_curve = [(PyInt 0, Fin 2)],
          fuel_mass = Fin 2\<rparr>"
  by (simp add: Motor_eval)

text \<open>
  C10 at a three-sample curve starting at time 1 (\<open>KeyError\<close>) and at one that is
  constructed (its first key is 0).
\<close>

theorem C10_first_key_must_be_zero_witness:
  "Motor_init 1 [(PyInt 1, PyInt 0), (PyInt 2, PyInt 1000), (PyInt 3, PyInt 0)] None (Some 2)
     = Inl KeyError
   \<and> ((\<exists>m. Motor_init 1 [(PyInt 0, PyInt 0), (PyInt 1, PyInt 1000), (PyInt 2, PyInt 0)]
              None (Some 2) = Inr m)
      \<and> val (dict_keys [(PyInt 0, PyInt 0), (PyInt 1, PyInt 1000), (PyInt 2, PyInt 0)] ! 0) = 0)"
proof -
  let ?bad = "[(PyInt 1, PyInt 0), (PyInt 2, PyInt 1000), (PyInt 3, PyInt 0)]"
  let ?good = "[(PyInt 0, PyInt 0), (PyInt 1, PyInt 1000), (PyInt 2, PyInt 0)]"
  have f: "\<not> truthy_dict (None :: npfloat pydict option)" by (simp add: truthy_dict_def)
  have n: "(2 :: real) \<noteq> 0" by simp
  have lb: "2 \<le> length ?bad" and lg: "2 \<le> length ?good" by simp_all
  have kb: "val (dict_keys ?bad ! 0) \<noteq> 0" by (simp add: dict_keys_def)
  have ok: "\<exists>m. Motor_init 1 ?good None (Some 2) = Inr m" by (simp add: Motor_eval)
  from C10_first_key_must_be_zero [OF lb f n, of 1] kb
  have 1: "Motor_init 1 ?bad None (Some 2) = Inl KeyError" by blast
  from C10_first_key_must_be_zero [OF lg f n, of 1] ok
  have 2: "val (dict_keys ?good ! 0) = 0" by blast
  from 1 ok 2 show ?thesis by blast
qed

section \<open>Claims about Rocket, LaunchConditions and Airbrakes\<close>

text \<open>
  C7. \<open>Cd_A_rocket\<close> is one function of the Mach number: for a callable coefficient
  \<open>f\<close> it returns \<open>f Ma * A_rocket\<close>, for a constant \<open>c\<close> it returns \<open>c * A_rocket\<close>
  whatever the Mach number (the default constant being 0.45).
\<close>

theorem C7_Cd_A_rocket:
  "Cd_A_rocket (Rocket_init rm mot A (Some (FunctionOfMach f)) h) Ma = f Ma * A
   \<and> Cd_A_rocket (Rocket_init rm mot A (Some (Constant c)) h) Ma = c * A
   \<and> Cd_A_rocket (Rocket_init rm mot A None h) Ma = 45 / 100 * A"
  by (simp add: Rocket_init_def)

text \<open>
  C8. A supplied nonzero \<open>local_gravity\<close> is stored as it is; otherwise a nonzero
  \<open>latitude\<close> gives \<open>get_local_gravity(latitude, altitude)\<close> with \<open>altitude\<close> defaulting to
  \<open>0\<close>; otherwise \<open>con.F_gravity\<close> is stored. A latitude of exactly \<open>0\<close> with no
  \<open>local_gravity\<close> gives \<open>con.F_gravity\<close>.
\<close>

theorem C8_local_gravity_precedence:
  "(kw_local_gravity kw = Some g \<and> g \<noteq> 0 \<longrightarrow>
      local_gravity (LaunchConditions_init con get_local_gravity p T L kw) = g)
   \<and> (\<not> truthy_num (kw_local_gravity kw) \<and> kw_latitude kw = Some lat \<and> lat \<noteq> 0 \<longrightarrow>
      local_gravity (LaunchConditions_init con get_local_gravity p T L kw) =
        get_local_gravity lat (case kw_altitude kw of None \<Rightarrow> 0 | Some alt \<Rightarrow> alt))
   \<and> (\<not> truthy_num (kw_local_gravity kw) \<and> \<not> truthy_num (kw_latitude kw) \<longrightarrow>
      local_gravity (LaunchConditions_init con get_local_gravity p T L kw) = F_gravity con)
   \<and> (kw_local_gravity kw = None \<and> kw_latitude kw = Some 0 \<longrightarrow>
      local_gravity (LaunchConditions_init con get_local_gravity p T L kw) = F_gravity con)"
  by (simp add: LaunchConditions_init_def truthy_num_def default_def Let_def)

text \<open>
  C8 at concrete calls, one per branch, with a stand-in gravity model
  \<open>978/100 + lat/1000 - alt/1000000\<close> and \<open>F_gravity = 9.80665\<close>.
\<close>

theorem C8_local_gravity_precedence_witness:
  "local_gravity (LaunchConditions_init \<lparr>T_lapse_rate = - 65 / 10000, F_gravity = 980665 / 100000\<rparr>
      (\<lambda>lat alt. 978 / 100 + lat / 1000 - alt / 1000000) 101325 20 5
      (no_kwargs\<lparr>kw_local_gravity := Some (979 / 100), kw_latitude := Some 45,
         kw_altitude := Some 1400\<rparr>)) = 979 / 100
   \<and> local_gravity (LaunchConditions_init \<lparr>T_lapse_rate = - 65 / 10000, F_gravity = 980665 / 100000\<rparr>
      (\<lambda>lat alt. 978 / 100 + lat / 1000 - alt / 1000000) 101325 20 5
      (no_kwargs\<lparr>kw_latitude := Some 45, kw_altitude := Some 1400\<rparr>))
       = 978 / 100 + 45 / 1000 - 1400 / 1000000
   \<and> local_gravity (LaunchConditions_init \<lparr>T_lapse_rate = - 65 / 10000, F_gravity = 980665 / 100000\<rparr>
      (\<lambda>lat alt. 978 / 100 + lat / 1000 - alt / 1000000) 101325 20 5
      (no_kwargs\<lparr>kw_latitude := Some 45\<rparr>))
       = 978 / 100 + 45 / 1000
   \<and> local_gravity (LaunchConditions_init \<lparr>T_lapse_rate = - 65 / 10000, F_gravity = 980665 / 100000\<rparr>
      (\<lambda>lat alt. 978 / 100 + lat / 1000 - alt / 1000000) 101325 20 5
      (no_kwargs\<lparr>kw_altitude := Some 1400\<rparr>)) = 980665 / 100000
   \<and> local_gravity (LaunchConditions_init \<lparr>T_lapse_rate = - 65 / 10000, F_gravity = 980665 / 100000\<rparr>
      (\<lambda>lat alt. 978 / 100 + lat / 1000 - alt / 1000000) 101325 20 5
      (no_kwargs\<lparr>kw_latitude := Some 0, kw_altitude := Some 1400\<rparr>)) = 980665 / 100000"
proof -
  let ?con = "\<lparr>T_lapse_rate = - 65 / 10000, F_gravity = 980665 / 100000\<rparr> :: constants"
  let ?g = "\<lambda>lat alt :: real. 978 / 100 + lat / 1000 - alt / 1000000 :: real"
  let ?k1 = "no_kwargs\<lparr>kw_local_gravity := Some (979 / 100), kw_latitude := Some 45,
         kw_altitude := Some 1400\<rparr>"
  let ?k2 = "no_kwargs\<lparr>kw_latitude := Some 45, kw_altitude := Some 1400\<rparr>"
  let ?k3 = "no_kwargs\<lparr>kw_latitude := Some 45\<rparr>"
  let ?k4 = "no_kwargs\<lparr>kw_altitude := Some 1400\<rparr>"
  let ?k5 = "no_kwargs\<lparr>kw_latitude := Some 0, kw_altitude := Some 1400\<rparr>"
  have a1: "kw_local_gravity ?k1 = Some (979 / 100) \<and> (979 / 100 :: real) \<noteq> 0" by simp
  have a2: "\<not> truthy_num (kw_local_gravity ?k2) \<and> kw_latitude ?k2 = Some 45 \<and> (45 :: real) \<noteq> 0"
    by (simp add: truthy_num_def no_kwargs_def)
  have a3: "\<not> truthy_num (kw_local_gravity ?k3) \<and> kw_latitude ?k3 = Some 45 \<and> (45 :: real) \<noteq> 0"
    by (simp add: truthy_num_def no_kwargs_def)
  have a4: "\<not> truthy_num (kw_local_gravity ?k4) \<and> \<not> truthy_num (kw_latitude ?k4)"
    by (simp add: truthy_num_def no_kwargs_def)
  have a5: "kw_local_gravity ?k5 = None \<and> kw_latitude ?k5 = Some 0"
    by (simp add: no_kwargs_def)
  from C8_local_gravity_precedence [where kw = ?k1 and g = "979 / 100" and con = ?con and get_local_gravity = ?g and p = 101325 and T = 20 and L = 5] a1
  have 1: "local_gravity (LaunchConditions_init ?con ?g 101325 20 5 ?k1) = 979 / 100" by blast
  from C8_local_gravity_precedence [where kw = ?k2 and lat = 45 and con = ?con and get_local_gravity = ?g and p = 101325 and T = 20 and L = 5] a2
  have 2: "local_gravity (LaunchConditions_init ?con ?g 101325 20 5 ?k2)
      = 978 / 100 + 45 / 1000 - 1400 / 1000000" by simp
  from C8_local_gravity_precedence [where kw = ?k3 and lat = 45 and con = ?con and get_local_gravity = ?g and p = 101325 and T = 20 and L = 5] a3
  have 3: "local_gravity (LaunchConditions_init ?con ?g 101325 20 5 ?k3)
      = 978 / 100 + 45 / 1000" by (simp add: no_kwargs_def)
  from C8_local_gravity_precedence [where kw = ?k4 and con = ?con and get_local_gravity = ?g and p = 101325 and T = 20 and L = 5] a4
  have 4: "local_gravity (LaunchConditions_init ?con ?g 101325 20 5 ?k4) = 980665 / 100000"
    by simp
  from C8_local_gravity_precedence [where kw = ?k5 and con = ?con and get_local_gravity = ?g and p = 101325 and T = 20 and L = 5] a5
  have 5: "local_gravity (LaunchConditions_init ?con ?g 101325 20 5 ?k5) = 980665 / 100000"
    by simp
  from 1 2 3 4 5 show ?thesis by (intro conjI)
qed

text \<open>
  C9 (what the code does). \<open>max_retraction_rate\<close> is \<open>max_deployment_rate\<close> when the
  argument is omitted, the supplied value when that value is nonzero, and
  \<open>max_deployment_rate\<close> again when the supplied value is \<open>0\<close>.
\<close>

theorem C9_max_retraction_rate:
  "max_retraction_rate (Airbrakes_init n A cd angle rate None) = rate
   \<and> (r \<noteq> 0 \<longrightarrow> max_retraction_rate (Airbrakes_init n A cd angle rate (Some r)) = r)
   \<and> max_retraction_rate (Airbrakes_init n A cd angle rate (Some 0)) = rate"
  by (simp add: Airbrakes_init_def truthy_num_def)

text \<open>
  C9 as stated fails for a supplied rate of \<open>0\<close>, distinct from the deployment rate 5:
  the stored retraction rate is 5, not the supplied value.
\<close>

theorem C9_zero_rate_counterexample:
  "max_retraction_rate (Airbrakes_init 4 (1 / 100) 1 45 5 (Some 0)) = 5
   \<and> (0 :: real) \<noteq> 5"
  by (simp add: Airbrakes_init_def truthy_num_def)

text \<open>
  C9 with the rate omitted and with the distinct rate 3 supplied.
\<close>

theorem C9_max_retraction_rate_witness:
  "max_retraction_rate (Airbrakes_init 4 (1 / 100) 1 45 5 None) = 5
   \<and> max_retraction_rate (Airbrakes_init 4 (1 / 100) 1 45 5 (Some 3)) = 3"
  using C9_max_retraction_rate [of 4 "1 / 100" 1 45 5 3] by simp

end
